theory Spec2Isabelle
  imports Complex_Main "HOL-Library.Product_Lexorder"
begin

section \<open>Python values and library functions\<close>

text \<open>
  The route engine of the repository is a family of Python functions over a pandas table of
  localities. A table is modelled as the list of its rows, in index order; a row of the
  table is a record with one field per column. Python floats are idealised as HOL reals,
  Python strings as HOL strings, and every exception the source can raise is a value of
  \<open>py_error\<close> on the left of a sum.
\<close>

datatype py_error = TypeError | IndexError | KeyError | ValueError | NetworkXNoPath

text \<open>
  A character of a HOL string is a code point below 256. \<open>str.lower\<close> and \<open>str.title\<close>
  are modelled on the ASCII letters. \<open>str.strip\<close> removes the characters for which
  \<open>str.isspace\<close> holds: below 256 these are the code points 9 to 13, 28 to 32, 133 (next
  line) and 160 (no-break space).
\<close>

definition isupper :: "char \<Rightarrow> bool" where
  "isupper c = (65 \<le> (of_char c :: nat) \<and> (of_char c :: nat) \<le> 90)"

definition islower :: "char \<Rightarrow> bool" where
  "islower c = (97 \<le> (of_char c :: nat) \<and> (of_char c :: nat) \<le> 122)"

definition isspace :: "char \<Rightarrow> bool" where
  "isspace c = ((of_char c :: nat) \<in> {9, 10, 11, 12, 13, 28, 29, 30, 31, 32, 133, 160})"

definition lower_char :: "char \<Rightarrow> char" where
  "lower_char c = (if isupper c then char_of ((of_char c :: nat) + 32) else c)"

definition upper_char :: "char \<Rightarrow> char" where
  "upper_char c = (if islower c then char_of ((of_char c :: nat) - 32) else c)"

definition lower :: "string \<Rightarrow> string" where
  "lower s = map lower_char s"

definition strip :: "string \<Rightarrow> string" where
  "strip s = rev (dropWhile isspace (rev (dropWhile isspace s)))"

text \<open>
  \<open>str.title\<close>: a cased character is upper-cased when the character before it is not
  cased, and lower-cased otherwise; the flag is \<open>previous_is_cased\<close>.
\<close>

fun title_from :: "bool \<Rightarrow> string \<Rightarrow> string" where
  "title_from previous_is_cased [] = []"
| "title_from previous_is_cased (c # cs) =
     (if isupper c \<or> islower c
      then (if previous_is_cased then lower_char c else upper_char c) # title_from True cs
      else c # title_from False cs)"

definition title :: "string \<Rightarrow> string" where
  "title s = title_from False s"

text \<open>\<open>Series.unique()\<close>: the distinct values in order of first appearance.\<close>

fun unique :: "'a list \<Rightarrow> 'a list" where
  "unique [] = []"
| "unique (x # xs) = x # unique (filter (\<lambda>y. y \<noteq> x) xs)"

text \<open>
  Modelled from the spec: \<open>process.extractOne\<close> of the fuzzy-matching library, which is
  not part of the repository. The spec says it "returns the single best-scoring name and
  its score; ties broken by catalog order (first occurrence wins)". The similarity metric
  itself is the parameter \<open>scorer\<close>: an integer ratio from 0 to 100 in fuzzywuzzy, a float
  from 0 to 100 in rapidfuzz. On an empty list of choices the library returns \<open>None\<close>.
\<close>

fun extractOne ::
  "(string \<Rightarrow> string \<Rightarrow> 'a::linorder) \<Rightarrow> string \<Rightarrow> string list \<Rightarrow> (string \<times> 'a) option" where
  "extractOne scorer query [] = None"
| "extractOne scorer query (c # cs) =
     (case extractOne scorer query cs of
        None \<Rightarrow> Some (c, scorer query c)
      | Some (b, s) \<Rightarrow> if s \<le> scorer query c then Some (c, scorer query c) else Some (b, s))"

text \<open>
  Modelled from the spec: the evaluations of the similarity metric in a call of
  \<open>process.extractOne\<close>. The spec's resolver scores the query "against the catalog": the
  library evaluates the metric once on every choice, whatever the query is, also an empty
  one. \<open>extractOne_calls\<close> lists these evaluations in order, as pairs of the query and the
  choice.
\<close>

definition extractOne_calls :: "string \<Rightarrow> string list \<Rightarrow> (string \<times> string) list" where
  "extractOne_calls query choices = map (Pair query) choices"

text \<open>\<open>int(x)\<close> on a float: truncation towards zero.\<close>

definition py_int :: "real \<Rightarrow> int" where
  "py_int x = (if 0 \<le> x then \<lfloor>x\<rfloor> else \<lceil>x\<rceil>)"

text \<open>\<open>math.radians\<close>.\<close>

definition radians :: "real \<Rightarrow> real" where
  "radians x = x * pi / 180"

text \<open>
  \<open>round(x, ndigits)\<close>: to the nearest multiple of \<open>10 ^ -ndigits\<close>, a tie going to
  the even neighbour.
\<close>

definition round_half_even :: "real \<Rightarrow> int" where
  "round_half_even y =
     (let f = \<lfloor>y\<rfloor>; d = y - of_int f
      in if d < 1 / 2 then f else if 1 / 2 < d then f + 1 else if even f then f else f + 1)"

definition py_round :: "real \<Rightarrow> nat \<Rightarrow> real" where
  "py_round x ndigits = of_int (round_half_even (x * 10 ^ ndigits)) / 10 ^ ndigits"

section \<open>app.py: the three-column ranker\<close>

record area_row =
  Ward_Code :: string
  Areas :: string
  Latitude :: real
  Longitude :: real
  Flood_Risk_Level :: string

record route =
  destination :: string
  ward :: string
  destination_lat :: real
  destination_lon :: real
  distance_km :: real
  eta_min :: real
  risk_level :: string
  combined_score :: real

text \<open>The Haversine block of the loop body (lines 127 to 134 of app.py).\<close>

definition haversine_km :: "real \<Rightarrow> real \<Rightarrow> real \<Rightarrow> real \<Rightarrow> real" where
  "haversine_km start_lat start_lon dest_lat dest_lon =
     (let lat1 = radians start_lat; lon1 = radians start_lon;
          lat2 = radians dest_lat; lon2 = radians dest_lon;
          dlat = lat2 - lat1;
          dlon = lon2 - lon1;
          a = (sin (dlat / 2))\<^sup>2 + cos lat1 * cos lat2 * (sin (dlon / 2))\<^sup>2;
          c = 2 * arcsin (sqrt a)
      in 6371 * c)"

text \<open>The dictionary \<open>{"Low": 1, "Medium": 2, "High": 3}\<close>, indexed with \<open>[...]\<close>.\<close>

definition risk_score_of :: "string \<Rightarrow> py_error + nat" where
  "risk_score_of level =
     (if level = ''Low'' then Inr 1
      else if level = ''Medium'' then Inr 2
      else if level = ''High'' then Inr 3
      else Inl KeyError)"

text \<open>Line 138: \<open>combined_score = (risk_score * 2) + (distance_km * 0.5)\<close>.\<close>

definition combined_score_of :: "nat \<Rightarrow> real \<Rightarrow> real" where
  "combined_score_of risk_score distance_km' = (real risk_score * 2) + (distance_km' * 0.5)"

definition speed_kmh_of :: "real \<Rightarrow> real" where
  "speed_kmh_of distance_km' =
     (if distance_km' < 5 then 15 else if distance_km' < 15 then 25 else 35)"

text \<open>
  One iteration of the loop over \<open>safe_zones\<close>: the dictionary appended to \<open>routes\<close>.
  Here and below, a local variable of the source whose name is also a key of the route
  dictionary is written with a prime.
\<close>

definition route_to :: "real \<Rightarrow> real \<Rightarrow> area_row \<Rightarrow> py_error + route" where
  "route_to start_lat start_lon safe_area =
     (let distance_km' = haversine_km start_lat start_lon (Latitude safe_area) (Longitude safe_area)
      in case risk_score_of (Flood_Risk_Level safe_area) of
           Inl e \<Rightarrow> Inl e
         | Inr risk_score \<Rightarrow>
             (let combined_score' = combined_score_of risk_score distance_km';
                  speed_kmh = speed_kmh_of distance_km';
                  eta_min' = (distance_km' / speed_kmh) * 60 * 1.3
              in Inr \<lparr> destination = title (Areas safe_area),
                       ward = Ward_Code safe_area,
                       destination_lat = Latitude safe_area,
                       destination_lon = Longitude safe_area,
                       distance_km = py_round distance_km' 2,
                       eta_min = py_round eta_min' 1,
                       risk_level = Flood_Risk_Level safe_area,
                       combined_score = combined_score' \<rparr>))"

fun routes_loop :: "real \<Rightarrow> real \<Rightarrow> area_row list \<Rightarrow> py_error + route list" where
  "routes_loop start_lat start_lon [] = Inr []"
| "routes_loop start_lat start_lon (safe_area # rest) =
     (case route_to start_lat start_lon safe_area of
        Inl e \<Rightarrow> Inl e
      | Inr r \<Rightarrow>
          (case routes_loop start_lat start_lon rest of
             Inl e \<Rightarrow> Inl e
           | Inr rs \<Rightarrow> Inr (r # rs)))"

definition safe_zones_of :: "string \<Rightarrow> area_row list \<Rightarrow> area_row list" where
  "safe_zones_of best_match flood_df =
     filter (\<lambda>r. Areas r \<noteq> best_match)
       (filter (\<lambda>r. Flood_Risk_Level r \<in> {''Low'', ''Medium''}) flood_df)"

text \<open>
  \<open>calculate_evacuation_routes(user_area, flood_df)\<close> of app.py. Unpacking the \<open>None\<close>
  that \<open>extractOne\<close> returns on an empty table raises \<open>TypeError\<close>; \<open>.iloc[0]\<close> on an
  empty selection raises \<open>IndexError\<close>.
\<close>

definition calculate_evacuation_routes ::
  "(string \<Rightarrow> string \<Rightarrow> nat) \<Rightarrow> string \<Rightarrow> area_row list
     \<Rightarrow> py_error + (string option \<times> nat option \<times> route list)" where
  "calculate_evacuation_routes scorer user_area flood_df =
     (let all_areas = unique (map Areas flood_df)
      in case extractOne scorer (lower user_area) all_areas of
           None \<Rightarrow> Inl TypeError
         | Some (best_match, score) \<Rightarrow>
             if score < 50 then Inr (None, None, [])
             else
               (case filter (\<lambda>r. Areas r = best_match) flood_df of
                  [] \<Rightarrow> Inl IndexError
                | start_area # _ \<Rightarrow>
                    (let start_lat = Latitude start_area; start_lon = Longitude start_area;
                         safe_zones = safe_zones_of best_match flood_df
                     in if safe_zones = [] then Inr (Some best_match, Some score, [])
                        else
                          (case routes_loop start_lat start_lon safe_zones of
                             Inl e \<Rightarrow> Inl e
                           | Inr routes \<Rightarrow>
                               Inr (Some best_match, Some score,
                                    take 3 (sort_key combined_score routes))))))"

text \<open>
  The evaluations of the similarity metric in a call of \<open>calculate_evacuation_routes\<close>:
  those of the call of \<open>process.extractOne\<close> in line 107, which no test of the query
  precedes.
\<close>

definition calculate_evacuation_routes_calls :: "string \<Rightarrow> area_row list \<Rightarrow> (string \<times> string) list" where
  "calculate_evacuation_routes_calls user_area flood_df =
     (let all_areas = unique (map Areas flood_df)
      in extractOne_calls (lower user_area) all_areas)"




section \<open>mumbai\_evacuation\_real.py: the same ranker with a safety score in each route\<close>

record real_route = route +
  safety_score :: nat

definition real_route_to :: "real \<Rightarrow> real \<Rightarrow> area_row \<Rightarrow> py_error + real_route" where
  "real_route_to start_lat start_lon safe_area =
     (let distance_km' = haversine_km start_lat start_lon (Latitude safe_area) (Longitude safe_area)
      in case risk_score_of (Flood_Risk_Level safe_area) of
           Inl e \<Rightarrow> Inl e
         | Inr risk_score \<Rightarrow>
             (let distance_score = distance_km';
                  combined_score' = combined_score_of risk_score distance_score;
                  speed_kmh = speed_kmh_of distance_km';
                  eta_min' = (distance_km' / speed_kmh) * 60;
                  eta_min' = eta_min' * 1.3
              in Inr \<lparr> destination = title (Areas safe_area),
                       ward = Ward_Code safe_area,
                       destination_lat = Latitude safe_area,
                       destination_lon = Longitude safe_area,
                       distance_km = py_round distance_km' 2,
                       eta_min = py_round eta_min' 1,
                       risk_level = Flood_Risk_Level safe_area,
                       combined_score = combined_score',
                       safety_score = risk_score \<rparr>))"

fun real_routes_loop :: "real \<Rightarrow> real \<Rightarrow> area_row list \<Rightarrow> py_error + real_route list" where
  "real_routes_loop start_lat start_lon [] = Inr []"
| "real_routes_loop start_lat start_lon (safe_area # rest) =
     (case real_route_to start_lat start_lon safe_area of
        Inl e \<Rightarrow> Inl e
      | Inr r \<Rightarrow>
          (case real_routes_loop start_lat start_lon rest of
             Inl e \<Rightarrow> Inl e
           | Inr rs \<Rightarrow> Inr (r # rs)))"

definition real_calculate_evacuation_routes ::
  "(string \<Rightarrow> string \<Rightarrow> nat) \<Rightarrow> string \<Rightarrow> area_row list
     \<Rightarrow> py_error + (string option \<times> nat option \<times> real_route list)" where
  "real_calculate_evacuation_routes scorer user_area flood_df =
     (let all_areas = unique (map Areas flood_df)
      in case extractOne scorer (lower user_area) all_areas of
           None \<Rightarrow> Inl TypeError
         | Some (best_match, score) \<Rightarrow>
             if score < 50 then Inr (None, None, [])
             else
               (case filter (\<lambda>r. Areas r = best_match) flood_df of
                  [] \<Rightarrow> Inl IndexError
                | start_area # _ \<Rightarrow>
                    (let start_lat = Latitude start_area; start_lon = Longitude start_area;
                         safe_zones = safe_zones_of best_match flood_df
                     in if safe_zones = [] then Inr (Some best_match, Some score, [])
                        else
                          (case real_routes_loop start_lat start_lon safe_zones of
                             Inl e \<Rightarrow> Inl e
                           | Inr routes \<Rightarrow>
                               Inr (Some best_match, Some score,
                                    take 3 (sort_key combined_score routes))))))"

section \<open>streamlit\_app.py: the ranker over the extended table\<close>

record zone_row =
  Ward :: string
  Area_Name :: string
  Latitude :: real
  Longitude :: real
  Flood_Risk :: string
  Evacuation_Priority :: string
  Population_Density :: int

text \<open>
  The transport labels of the source are strings that start with an emoji; they are the
  constructors of \<open>transport_mode\<close> here.
\<close>

datatype transport_mode =
  Walk_Fast | Bicycle_Auto | Emergency_Vehicle | Walk | Bicycle | Car_Taxi | Bus_Train

record zone_route =
  destination :: string
  ward :: string
  destination_lat :: real
  destination_lon :: real
  distance_km :: real
  eta_minutes :: real
  risk_level :: string
  evacuation_priority :: string
  safety_improvement :: real
  capacity_score :: real
  route_score :: real
  population_density :: int
  transport :: transport_mode

text \<open>\<open>risk_scores.get(level, 2)\<close> on \<open>{"Critical": 4, "High": 3, "Medium": 2, "Low": 1}\<close>.\<close>

definition risk_scores_get :: "string \<Rightarrow> int" where
  "risk_scores_get level =
     (if level = ''Critical'' then 4
      else if level = ''High'' then 3
      else if level = ''Medium'' then 2
      else if level = ''Low'' then 1
      else 2)"

text \<open>Lines 328 to 331: \<open>route_score = distance_score - safety_improvement\<close>.\<close>

definition route_score_of :: "int \<Rightarrow> int \<Rightarrow> real \<Rightarrow> real" where
  "route_score_of current_risk_score safety_score' distance_km' =
     (let distance_score = distance_km' * 0.3;
          safety_improvement' = (current_risk_score - safety_score') * 2
      in distance_score - of_int safety_improvement')"

definition base_speed_of :: "real \<Rightarrow> real" where
  "base_speed_of distance_km' =
     (if distance_km' < 3 then 12
      else if distance_km' < 8 then 18
      else if distance_km' < 15 then 25
      else 35)"

text \<open>
  The transport recommendation: written in line in streamlit\_app.py (lines 347 to 361),
  the function \<open>get_transport_recommendation\<close> in mumbai\_evacuation\_complete.py.
\<close>

definition get_transport_recommendation :: "real \<Rightarrow> string \<Rightarrow> transport_mode" where
  "get_transport_recommendation distance_km' priority =
     (if priority = ''Immediate''
      then (if distance_km' < 2 then Walk_Fast
            else if distance_km' < 8 then Bicycle_Auto
            else Emergency_Vehicle)
      else if distance_km' < 1 then Walk
      else if distance_km' < 5 then Bicycle
      else if distance_km' < 12 then Car_Taxi
      else Bus_Train)"

definition capacity_score_of :: "int \<Rightarrow> real" where
  "capacity_score_of density = min 100 (max 10 (100 - (of_int density / 1000)))"

definition zone_route_to :: "real \<Rightarrow> real \<Rightarrow> string \<Rightarrow> string \<Rightarrow> zone_row \<Rightarrow> zone_route" where
  "zone_route_to start_lat start_lon current_risk current_priority dest =
     (let distance_km' = haversine_km start_lat start_lon (Latitude dest) (Longitude dest);
          safety_score' = risk_scores_get (Flood_Risk dest);
          current_risk_score = risk_scores_get current_risk;
          safety_improvement' = (current_risk_score - safety_score') * 2;
          route_score' = route_score_of current_risk_score safety_score' distance_km';
          base_speed = base_speed_of distance_km';
          emergency_speed_factor = 0.7;
          actual_speed = base_speed * emergency_speed_factor;
          total_eta = ((distance_km' / actual_speed) * 60) * 1.4;
          transport' = get_transport_recommendation distance_km' current_priority;
          capacity_score' = capacity_score_of (Population_Density dest)
      in \<lparr> destination = title (Area_Name dest),
            ward = Ward dest,
            destination_lat = Latitude dest,
            destination_lon = Longitude dest,
            distance_km = py_round distance_km' 2,
            eta_minutes = py_round total_eta 1,
            risk_level = Flood_Risk dest,
            evacuation_priority = Evacuation_Priority dest,
            safety_improvement = py_round (of_int safety_improvement') 1,
            capacity_score = py_round capacity_score' 1,
            route_score = py_round route_score' 2,
            population_density = Population_Density dest,
            transport = transport' \<rparr>)"

definition zone_safe_zones_of :: "string \<Rightarrow> zone_row list \<Rightarrow> zone_row list" where
  "zone_safe_zones_of best_match flood_df =
     filter (\<lambda>r. Flood_Risk r \<in> {''Low'', ''Medium''} \<and>
                 Area_Name r \<noteq> best_match \<and>
                 Evacuation_Priority r \<in> {''Safe'', ''Standard''}) flood_df"

text \<open>\<open>calculate_evacuation_routes(user_area, flood_df)\<close> of streamlit\_app.py.\<close>

definition zone_calculate_evacuation_routes ::
  "(string \<Rightarrow> string \<Rightarrow> nat) \<Rightarrow> string \<Rightarrow> zone_row list
     \<Rightarrow> py_error + (string option \<times> nat option \<times> zone_route list)" where
  "zone_calculate_evacuation_routes scorer user_area flood_df =
     (let all_areas = unique (map Area_Name flood_df)
      in case extractOne scorer (lower user_area) all_areas of
           None \<Rightarrow> Inl TypeError
         | Some (best_match, score) \<Rightarrow>
             if score < 40 then Inr (None, None, [])
             else
               (case filter (\<lambda>r. Area_Name r = best_match) flood_df of
                  [] \<Rightarrow> Inl IndexError
                | current_location # _ \<Rightarrow>
                    (let start_lat = Latitude current_location;
                         start_lon = Longitude current_location;
                         current_risk = Flood_Risk current_location;
                         current_priority = Evacuation_Priority current_location;
                         safe_zones = zone_safe_zones_of best_match flood_df
                     in if safe_zones = [] then Inr (Some best_match, Some score, [])
                        else
                          (let routes =
                                 map (zone_route_to start_lat start_lon current_risk current_priority)
                                   safe_zones
                           in Inr (Some best_match, Some score,
                                   take 5 (sort_key route_score routes))))))"

section \<open>mumbai\_evacuation\_complete.py: density penalty and urgency multiplier\<close>

record advanced_route =
  destination :: string
  ward :: string
  destination_lat :: real
  destination_lon :: real
  distance_km :: real
  eta_minutes :: real
  risk_level :: string
  evacuation_priority :: string
  safety_improvement :: real
  capacity_score :: real
  route_score :: real
  population_density :: int
  recommended_transport :: transport_mode

text \<open>
  The dictionary \<open>{"Immediate": 3, "Urgent": 2, "Standard": 1.5, "Safe": 1}\<close>, indexed
  with \<open>[current_priority]\<close>.
\<close>

definition urgency_multiplier_of :: "string \<Rightarrow> py_error + real" where
  "urgency_multiplier_of priority =
     (if priority = ''Immediate'' then Inr 3
      else if priority = ''Urgent'' then Inr 2
      else if priority = ''Standard'' then Inr 1.5
      else if priority = ''Safe'' then Inr 1
      else Inl KeyError)"

text \<open>
  Lines 349 to 358:
  \<open>route_score = (distance_score - safety_improvement + density_penalty) * urgency_multiplier\<close>.
\<close>

definition advanced_route_score_of :: "int \<Rightarrow> int \<Rightarrow> real \<Rightarrow> int \<Rightarrow> real \<Rightarrow> real" where
  "advanced_route_score_of current_risk_score safety_score' distance_km' density urgency_multiplier =
     (let density_factor = of_int density / 100000;
          distance_score = distance_km' * 0.3;
          safety_improvement' = (current_risk_score - safety_score') * 2;
          density_penalty = density_factor * 0.5
      in (distance_score - of_int safety_improvement' + density_penalty) * urgency_multiplier)"

definition advanced_route_to ::
  "real \<Rightarrow> real \<Rightarrow> string \<Rightarrow> string \<Rightarrow> zone_row \<Rightarrow> py_error + advanced_route" where
  "advanced_route_to start_lat start_lon current_risk current_priority dest =
     (let distance_km' = haversine_km start_lat start_lon (Latitude dest) (Longitude dest);
          safety_score' = risk_scores_get (Flood_Risk dest);
          current_risk_score = risk_scores_get current_risk
      in case urgency_multiplier_of current_priority of
           Inl e \<Rightarrow> Inl e
         | Inr urgency_multiplier \<Rightarrow>
             (let safety_improvement' = (current_risk_score - safety_score') * 2;
                  route_score' =
                    advanced_route_score_of current_risk_score safety_score' distance_km'
                      (Population_Density dest) urgency_multiplier;
                  base_speed = base_speed_of distance_km';
                  emergency_speed_factor = 0.7;
                  actual_speed = base_speed * emergency_speed_factor;
                  base_eta = (distance_km' / actual_speed) * 60;
                  emergency_buffer = base_eta * 0.4;
                  total_eta = base_eta + emergency_buffer;
                  capacity_score' = capacity_score_of (Population_Density dest)
              in Inr \<lparr> destination = title (Area_Name dest),
                       ward = Ward dest,
                       destination_lat = Latitude dest,
                       destination_lon = Longitude dest,
                       distance_km = py_round distance_km' 2,
                       eta_minutes = py_round total_eta 1,
                       risk_level = Flood_Risk dest,
                       evacuation_priority = Evacuation_Priority dest,
                       safety_improvement = py_round (of_int safety_improvement') 1,
                       capacity_score = py_round capacity_score' 1,
                       route_score = py_round route_score' 2,
                       population_density = Population_Density dest,
                       recommended_transport =
                         get_transport_recommendation distance_km' current_priority \<rparr>))"

fun advanced_routes_loop ::
  "real \<Rightarrow> real \<Rightarrow> string \<Rightarrow> string \<Rightarrow> zone_row list \<Rightarrow> py_error + advanced_route list" where
  "advanced_routes_loop start_lat start_lon current_risk current_priority [] = Inr []"
| "advanced_routes_loop start_lat start_lon current_risk current_priority (dest # rest) =
     (case advanced_route_to start_lat start_lon current_risk current_priority dest of
        Inl e \<Rightarrow> Inl e
      | Inr r \<Rightarrow>
          (case advanced_routes_loop start_lat start_lon current_risk current_priority rest of
             Inl e \<Rightarrow> Inl e
           | Inr rs \<Rightarrow> Inr (r # rs)))"

text \<open>\<open>calculate_advanced_evacuation_routes(user_area, flood_df)\<close>.\<close>

definition calculate_advanced_evacuation_routes ::
  "(string \<Rightarrow> string \<Rightarrow> nat) \<Rightarrow> string \<Rightarrow> zone_row list
     \<Rightarrow> py_error + (string option \<times> nat option \<times> advanced_route list)" where
  "calculate_advanced_evacuation_routes scorer user_area flood_df =
     (let all_areas = unique (map Area_Name flood_df)
      in case extractOne scorer (lower user_area) all_areas of
           None \<Rightarrow> Inl TypeError
         | Some (best_match, score) \<Rightarrow>
             if score < 40 then Inr (None, None, [])
             else
               (case filter (\<lambda>r. Area_Name r = best_match) flood_df of
                  [] \<Rightarrow> Inl IndexError
                | current_location # _ \<Rightarrow>
                    (let start_lat = Latitude current_location;
                         start_lon = Longitude current_location;
                         current_risk = Flood_Risk current_location;
                         current_priority = Evacuation_Priority current_location;
                         safe_zones = zone_safe_zones_of best_match flood_df
                     in if safe_zones = [] then Inr (Some best_match, Some score, [])
                        else
                          (case advanced_routes_loop start_lat start_lon current_risk
                                  current_priority safe_zones of
                             Inl e \<Rightarrow> Inl e
                           | Inr routes \<Rightarrow>
                               Inr (Some best_match, Some score,
                                    take 5 (sort_key route_score routes))))))"

section \<open>evacuation\_app\_simple.py: the first three safe areas\<close>

record simple_row =
  Ward_Code :: string
  Areas :: string
  Latitude :: real
  Longitude :: real
  Flood_risk_level :: string

record simple_route =
  destination :: string
  destination_lat :: real
  destination_lon :: real
  distance_km :: real
  eta_min :: real
  risk_level :: string

definition simple_route_to :: "real \<Rightarrow> real \<Rightarrow> simple_row \<Rightarrow> simple_route" where
  "simple_route_to start_lat start_lon safe_area =
     (let lat_diff = Latitude safe_area - start_lat;
          lon_diff = Longitude safe_area - start_lon;
          distance_km' = sqrt (lat_diff\<^sup>2 + lon_diff\<^sup>2) * 111;
          eta_min' = (distance_km' / 25) * 60
      in \<lparr> destination = title (Areas safe_area),
            destination_lat = Latitude safe_area,
            destination_lon = Longitude safe_area,
            distance_km = distance_km',
            eta_min = eta_min',
            risk_level = Flood_risk_level safe_area \<rparr>)"

definition safe_areas_of :: "simple_row list \<Rightarrow> simple_row list" where
  "safe_areas_of flood_df =
     filter (\<lambda>r. lower (Flood_risk_level r) \<in> {''low'', ''minimal'', ''safe''}) flood_df"

text \<open>\<open>calculate_simple_routes(user_area, flood_df)\<close>.\<close>

definition calculate_simple_routes ::
  "(string \<Rightarrow> string \<Rightarrow> nat) \<Rightarrow> string \<Rightarrow> simple_row list
     \<Rightarrow> py_error + (string option \<times> nat option \<times> simple_route list)" where
  "calculate_simple_routes scorer user_area flood_df =
     (let all_areas = unique (map Areas flood_df)
      in case extractOne scorer (lower user_area) all_areas of
           None \<Rightarrow> Inl TypeError
         | Some (best_match, score) \<Rightarrow>
             if score < 60 then Inr (None, None, [])
             else
               (case filter (\<lambda>r. Areas r = best_match) flood_df of
                  [] \<Rightarrow> Inl IndexError
                | start # _ \<Rightarrow>
                    (let start_lat = Latitude start; start_lon = Longitude start;
                         safe_areas = safe_areas_of flood_df
                     in if safe_areas = [] then Inr (Some best_match, Some score, [])
                        else
                          (let routes = map (simple_route_to start_lat start_lon) (take 3 safe_areas)
                           in Inr (Some best_match, Some score,
                                   take 2 (sort_key distance_km routes))))))"

section \<open>evacuation\_app.py: the first five safe nodes of the road graph\<close>

text \<open>
  The road graph is a networkx multigraph. Its edges are the list of \<open>(u, v, key, data)\<close>
  that \<open>G.edges(keys=True, data=True)\<close> yields; the attributes \<open>length\<close>, \<open>risk\<close> and
  \<open>name\<close> of an edge are optional. The two library calls on the graph are fields of the
  record: \<open>ox.distance.nearest_nodes(G, X, Y)\<close>, and \<open>nx.shortest_path\<close> by length, which
  is \<open>None\<close> where the library raises.
\<close>

type_synonym node = int

record edge_attrs =
  attr_length :: "real option"
  attr_risk :: "real option"
  attr_name :: "string option"

record road_network =
  graph_edges :: "(node \<times> node \<times> nat \<times> edge_attrs) list"
  nearest_nodes :: "real \<Rightarrow> real \<Rightarrow> node"
  shortest_path :: "node \<Rightarrow> node \<Rightarrow> node list option"

record graph_route =
  path :: "node list"
  distance_km :: real
  eta_min :: real
  risk :: real
  roads :: "string set"

text \<open>\<open>G[u][v][0]\<close>: the attributes of the edge from \<open>u\<close> to \<open>v\<close> with key 0, if there is one.\<close>

definition edge_zero :: "road_network \<Rightarrow> node \<Rightarrow> node \<Rightarrow> edge_attrs option" where
  "edge_zero G u v =
     (case filter (\<lambda>(a, b, k, d). a = u \<and> b = v \<and> k = 0) (graph_edges G) of
        [] \<Rightarrow> None
      | (a, b, k, d) # _ \<Rightarrow> Some d)"

text \<open>
  \<open>sum([G[u][v][0].get(attr, 0) for u, v in zip(path[:-1], path[1:])])\<close>; \<open>None\<close> when
  an edge with key 0 is missing (a \<open>KeyError\<close>).
\<close>

fun sum_along :: "road_network \<Rightarrow> (edge_attrs \<Rightarrow> real option) \<Rightarrow> (node \<times> node) list \<Rightarrow> real option" where
  "sum_along G attr [] = Some 0"
| "sum_along G attr ((u, v) # rest) =
     (case edge_zero G u v of
        None \<Rightarrow> None
      | Some d \<Rightarrow>
          (case sum_along G attr rest of
             None \<Rightarrow> None
           | Some s \<Rightarrow> Some ((case attr d of None \<Rightarrow> 0 | Some x \<Rightarrow> x) + s)))"

text \<open>
  The body of the \<open>try\<close> block for one destination node; \<open>None\<close> is the
  \<open>except Exception: continue\<close> branch.
\<close>

definition try_route :: "road_network \<Rightarrow> node \<Rightarrow> node \<Rightarrow> graph_route option" where
  "try_route G orig_node dest_node =
     (case shortest_path G orig_node dest_node of
        None \<Rightarrow> None
      | Some path' \<Rightarrow>
          (let steps = zip (butlast path') (tl path')
           in case sum_along G attr_length steps of
                None \<Rightarrow> None
              | Some length' \<Rightarrow>
                  (case sum_along G attr_risk steps of
                     None \<Rightarrow> None
                   | Some risk' \<Rightarrow>
                       (let eta = (length' / 1000) / 30 * 60;
                            road_names =
                              map (\<lambda>(u, v, k, d). case attr_name d of
                                                      None \<Rightarrow> ''Unnamed Road''
                                                    | Some n \<Rightarrow> n)
                                (filter (\<lambda>(u, v, k, d). u \<in> set path' \<and> v \<in> set path')
                                   (graph_edges G))
                        in Some \<lparr> path = path',
                                  distance_km = length' / 1000,
                                  eta_min = eta,
                                  risk = risk',
                                  roads = set road_names \<rparr>))))"

text \<open>\<open>get_two_safest_routes(user_area, G, flood_df)\<close>.\<close>

definition get_two_safest_routes ::
  "(string \<Rightarrow> string \<Rightarrow> nat) \<Rightarrow> string \<Rightarrow> road_network \<Rightarrow> simple_row list
     \<Rightarrow> py_error + (string option \<times> nat option \<times> graph_route list option)" where
  "get_two_safest_routes scorer user_area G flood_df =
     (let all_areas = unique (map Areas flood_df)
      in case extractOne scorer (lower user_area) all_areas of
           None \<Rightarrow> Inl TypeError
         | Some (best_match, score) \<Rightarrow>
             if score < 60 then Inr (None, None, None)
             else
               (case filter (\<lambda>r. Areas r = best_match) flood_df of
                  [] \<Rightarrow> Inl IndexError
                | start # _ \<Rightarrow>
                    (let start_lat = Latitude start; start_lon = Longitude start;
                         orig_node = nearest_nodes G start_lon start_lat;
                         safe_df = filter (\<lambda>r. lower (Flood_risk_level r) \<in>
                                                {''low'', ''minimal'', ''safe''}) flood_df;
                         safe_nodes = map (\<lambda>row. nearest_nodes G (Longitude row) (Latitude row))
                                        safe_df
                     in if safe_nodes = [] then Inr (Some best_match, Some score, Some [])
                        else
                          (let routes = List.map_filter (try_route G orig_node) (take 5 safe_nodes)
                           in Inr (Some best_match, Some score,
                                   Some (take 2 (sort_key (\<lambda>x. (risk x, distance_km x)) routes)))))))"

section \<open>warp.py: regions of the nodes and edges of the road graph\<close>

record region_info =
  areas :: string
  flood_risk_level :: string
  latitude :: real
  longitude :: real

text \<open>
  \<open>risk_priority.get(level, 1)\<close> on
  \<open>{'low': 0, 'moderate': 1, 'high': 2, 'severe': 3, 'extreme': 4}\<close>.
\<close>

definition risk_priority_get :: "string \<Rightarrow> nat" where
  "risk_priority_get level =
     (if level = ''low'' then 0
      else if level = ''moderate'' then 1
      else if level = ''high'' then 2
      else if level = ''severe'' then 3
      else if level = ''extreme'' then 4
      else 1)"

text \<open>The body of the loop over the edges (lines 135 to 152): the region of one edge.\<close>

definition edge_region :: "(node \<rightharpoonup> region_info) \<Rightarrow> node \<Rightarrow> node \<Rightarrow> region_info option" where
  "edge_region node_to_region u v =
     (case (node_to_region u, node_to_region v) of
        (Some u_region, Some v_region) \<Rightarrow>
          (let u_risk_level = risk_priority_get (flood_risk_level u_region);
               v_risk_level = risk_priority_get (flood_risk_level v_region)
           in if v_risk_level \<le> u_risk_level then Some u_region else Some v_region)
      | (Some u_region, None) \<Rightarrow> Some u_region
      | (None, Some v_region) \<Rightarrow> Some v_region
      | (None, None) \<Rightarrow> None)"

fun edges_loop ::
  "(node \<rightharpoonup> region_info) \<Rightarrow> (node \<times> node \<times> nat) list
     \<Rightarrow> (node \<times> node \<times> nat \<rightharpoonup> region_info) \<Rightarrow> (node \<times> node \<times> nat \<rightharpoonup> region_info)" where
  "edges_loop node_to_region [] edge_to_region = edge_to_region"
| "edges_loop node_to_region ((u, v, key) # rest) edge_to_region =
     edges_loop node_to_region rest
       (case edge_region node_to_region u v of
          None \<Rightarrow> edge_to_region
        | Some r \<Rightarrow> edge_to_region((u, v, key) \<mapsto> r))"

text \<open>
  The loop over the nodes (lines 111 to 127). \<open>query\<close> is \<open>tree.query\<close> of the k-d tree
  built from the region coordinates: it returns the distance in degrees to the nearest
  region and that region's index. The state is \<open>node_to_region\<close> and \<open>region_networks\<close>;
  the two attributes that the loop also writes on the node of the graph repeat the name and
  the risk level of the region and are not read again by the mapping.
\<close>

fun nodes_loop ::
  "(real \<times> real \<Rightarrow> real \<times> nat) \<Rightarrow> region_info list \<Rightarrow> real \<Rightarrow> (node \<times> real \<times> real) list
     \<Rightarrow> (node \<rightharpoonup> region_info) \<times> (string \<Rightarrow> node list)
     \<Rightarrow> py_error + (node \<rightharpoonup> region_info) \<times> (string \<Rightarrow> node list)" where
  "nodes_loop query region_data region_radius_km [] state = Inr state"
| "nodes_loop query region_data region_radius_km ((node_id, y, x) # rest) (node_to_region, region_networks) =
     (let (distance_deg, region_idx) = query (y, x);
          distance_km' = distance_deg * 111.0
      in if distance_km' \<le> region_radius_km
         then (if region_idx < length region_data
               then (let info = region_data ! region_idx
                     in nodes_loop query region_data region_radius_km rest
                          (node_to_region(node_id \<mapsto> info),
                           region_networks(areas info := region_networks (areas info) @ [node_id])))
               else Inl IndexError)
         else nodes_loop query region_data region_radius_km rest (node_to_region, region_networks))"

text \<open>
  \<open>map_regions_to_road_network(G, flood_df, region_radius_km)\<close>: the graph is the list of
  its nodes \<open>(id, y, x)\<close> and the list of its edges \<open>(u, v, key)\<close>; the table is the
  list \<open>region_data\<close> of its rows. On a table without rows \<open>region_coords\<close> is an
  empty array, and \<open>cKDTree(region_coords)\<close> in line 101 raises \<open>ValueError\<close>.
\<close>

definition map_regions_to_road_network ::
  "((real \<times> real) list \<Rightarrow> real \<times> real \<Rightarrow> real \<times> nat)
     \<Rightarrow> (node \<times> real \<times> real) list \<Rightarrow> (node \<times> node \<times> nat) list \<Rightarrow> region_info list \<Rightarrow> real
     \<Rightarrow> py_error + (node \<rightharpoonup> region_info) \<times> (node \<times> node \<times> nat \<rightharpoonup> region_info) \<times> (string \<Rightarrow> node list)" where
  "map_regions_to_road_network cKDTree_query G_nodes G_edges region_data region_radius_km =
     (let region_coords = map (\<lambda>row. (latitude row, longitude row)) region_data
      in if region_coords = [] then Inl ValueError
         else
           (case nodes_loop (cKDTree_query region_coords) region_data region_radius_km G_nodes
                   (Map.empty, \<lambda>_. [])
            of Inl e \<Rightarrow> Inl e
             | Inr (node_to_region, region_networks) \<Rightarrow>
                 Inr (node_to_region, edges_loop node_to_region G_edges Map.empty,
                      region_networks)))"

section \<open>tload.py: Haversine in metres, nearest regions, the regions of the edges\<close>

text \<open>\<open>np.arctan2(y, x)\<close>: the angle of the point \<open>(x, y)\<close>, in \<open>(-pi, pi]\<close>.\<close>

definition arctan2 :: "real \<Rightarrow> real \<Rightarrow> real" where
  "arctan2 y x =
     (if 0 < x then arctan (y / x)
      else if x < 0 \<and> 0 \<le> y then arctan (y / x) + pi
      else if x < 0 then arctan (y / x) - pi
      else if 0 < y then pi / 2
      else if y < 0 then - (pi / 2)
      else 0)"

text \<open>\<open>haversine_m(lon1, lat1, lon2, lat2)\<close>; \<open>np.radians\<close> is \<open>radians\<close>.\<close>

definition haversine_m :: "real \<Rightarrow> real \<Rightarrow> real \<Rightarrow> real \<Rightarrow> real" where
  "haversine_m lon1 lat1 lon2 lat2 =
     (let R = 6371000.0;
          lon1 = radians lon1; lat1 = radians lat1;
          lon2 = radians lon2; lat2 = radians lat2;
          dlon = lon2 - lon1;
          dlat = lat2 - lat1;
          a = (sin (dlat / 2.0))\<^sup>2 + cos lat1 * cos lat2 * (sin (dlon / 2.0))\<^sup>2;
          c = 2 * arctan2 (sqrt a) (sqrt (1 - a))
      in R * c)"

text \<open>\<open>np.argmin\<close> on a column of distances: the first index of the least value.\<close>

fun argmin_from :: "nat \<Rightarrow> real \<Rightarrow> nat \<Rightarrow> real list \<Rightarrow> nat" where
  "argmin_from best_i best i [] = best_i"
| "argmin_from best_i best i (d # ds) =
     (if d < best then argmin_from i d (Suc i) ds else argmin_from best_i best (Suc i) ds)"

definition argmin :: "real list \<Rightarrow> nat" where
  "argmin ds = (case ds of [] \<Rightarrow> 0 | d # rest \<Rightarrow> argmin_from 0 d 1 rest)"

text \<open>
  Lines 130 to 135: the index of the nearest region of every node of the graph. The nodes
  are the list of \<open>(id, lon, lat)\<close>; the table has at least one region.
\<close>

definition nearest_region_idx_per_node ::
  "real list \<Rightarrow> real list \<Rightarrow> (node \<times> real \<times> real) list \<Rightarrow> (node \<times> nat) list" where
  "nearest_region_idx_per_node region_lons region_lats G_nodes =
     map (\<lambda>(n, node_lon, node_lat).
            (n, argmin (map (\<lambda>(region_lon, region_lat).
                               haversine_m region_lon region_lat node_lon node_lat)
                          (zip region_lons region_lats))))
       G_nodes"

definition nodeid_to_region_idx_of ::
  "real list \<Rightarrow> real list \<Rightarrow> (node \<times> real \<times> real) list \<Rightarrow> (node \<rightharpoonup> nat)" where
  "nodeid_to_region_idx_of region_lons region_lats G_nodes =
     map_of (rev (nearest_region_idx_per_node region_lons region_lats G_nodes))"

text \<open>
  Lines 150 to 152: the columns \<open>region_idx\<close>, \<open>region_name\<close> and \<open>risk_level\<close> of the
  edge table, for the edge from \<open>u\<close> to \<open>v\<close>. An index that the dictionary holds is an
  index of the table, so that \<open>regions[i]\<close> does not raise.
\<close>

record edge_tags =
  region_idx :: "nat option"
  region_name :: string
  risk_level :: string

definition tag_edge :: "(node \<rightharpoonup> nat) \<Rightarrow> string list \<Rightarrow> string list \<Rightarrow> node \<times> node \<Rightarrow> edge_tags" where
  "tag_edge nodeid_to_region_idx regions region_risks e =
     (let (u, v) = e;
          i = nodeid_to_region_idx u
      in \<lparr> region_idx = i,
            region_name = (case i of None \<Rightarrow> ''unknown'' | Some j \<Rightarrow> regions ! j),
            risk_level = (case i of None \<Rightarrow> ''unknown'' | Some j \<Rightarrow> region_risks ! j) \<rparr>)"

text \<open>
  \<open>extract_best_match(query, choices)\<close>. \<open>fuzzy_process\<close> is rapidfuzz when that
  library is installed, and its metric is a float: \<open>extractOne\<close> chooses on the scores as
  the metric gives them, and \<open>int(res[1])\<close> truncates the score of the chosen name alone.
  The result is \<open>(None, 0)\<close> when \<open>extractOne\<close> returns \<open>None\<close>.
\<close>

definition extract_best_match ::
  "(string \<Rightarrow> string \<Rightarrow> real) \<Rightarrow> string \<Rightarrow> string list \<Rightarrow> string option \<times> int" where
  "extract_best_match scorer query choices =
     (case extractOne scorer query choices of
        None \<Rightarrow> (None, 0)
      | Some (b, s) \<Rightarrow> (Some b, py_int s))"

text \<open>
  The graph of tload.py has two more library calls:
  \<open>nx.single_source_dijkstra_path_length\<close>, a dictionary from the reachable nodes to their
  distances, and \<open>ox.utils_graph.get_route_edge_attributes(G, route, "length")\<close>, which is
  \<open>None\<close> where it raises.
\<close>

record tload_network = road_network +
  dijkstra_path_length :: "node \<Rightarrow> (node \<rightharpoonup> real)"
  route_edge_lengths :: "node list \<Rightarrow> real list option"

text \<open>
  \<open>min(vals, key=lambda d: d.get("length", float("inf")))\<close> over the parallel edges
  between two nodes: the first edge of least length, an edge without a length counting as
  infinitely long.
\<close>

definition shorter :: "edge_attrs \<Rightarrow> edge_attrs \<Rightarrow> bool" where
  "shorter d e =
     (case attr_length d of
        None \<Rightarrow> False
      | Some x \<Rightarrow> (case attr_length e of None \<Rightarrow> True | Some y \<Rightarrow> x < y))"

fun min_by_length :: "edge_attrs \<Rightarrow> edge_attrs list \<Rightarrow> edge_attrs" where
  "min_by_length best [] = best"
| "min_by_length best (d # ds) =
     (if shorter d best then min_by_length d ds else min_by_length best ds)"

text \<open>\<open>route_length_m(G, route)\<close>, with its fallback in the \<open>except\<close> branch.\<close>

fun route_length_fallback :: "'a road_network_scheme \<Rightarrow> (node \<times> node) list \<Rightarrow> real" where
  "route_length_fallback G [] = 0"
| "route_length_fallback G ((u, v) # rest) =
     (case map (\<lambda>(a, b, k, d). d) (filter (\<lambda>(a, b, k, d). a = u \<and> b = v) (graph_edges G)) of
        [] \<Rightarrow> 0
      | d # ds \<Rightarrow> (case attr_length (min_by_length d ds) of None \<Rightarrow> 0 | Some x \<Rightarrow> x))
     + route_length_fallback G rest"

definition route_length_m :: "tload_network \<Rightarrow> node list \<Rightarrow> real" where
  "route_length_m G route =
     (case route_edge_lengths G route of
        Some lengths \<Rightarrow> (if lengths = [] then 0.0 else sum_list lengths)
      | None \<Rightarrow> route_length_fallback G (zip (butlast route) (tl route)))"

text \<open>
  The globals of the module that the route finder reads: the columns of the table and the
  dictionary \<open>nodeid_to_region_idx\<close>, in insertion order.
\<close>

record tload_globals =
  regions :: "string list"
  region_lons :: "real list"
  region_lats :: "real list"
  region_risks :: "string list"
  nodeid_to_region_idx :: "(node \<times> nat) list"

record tload_route =
  dest_region :: string
  dest_region_idx :: nat
  dest_node :: node
  path :: "node list"
  distance_km :: real
  eta_min :: real

text \<open>\<open>list.index\<close>: the first position of a value, \<open>None\<close> where it raises \<open>ValueError\<close>.\<close>

fun index_of :: "'a \<Rightarrow> 'a list \<Rightarrow> nat option" where
  "index_of x [] = None"
| "index_of x (y # ys) = (if x = y then Some 0 else map_option Suc (index_of x ys))"

text \<open>
  The loop that selects the two nearest candidates of distinct regions (lines 202 to 209).
\<close>

fun select_loop ::
  "(node \<rightharpoonup> nat) \<Rightarrow> (node \<times> real) list \<Rightarrow> (node \<times> real \<times> nat option) list \<Rightarrow> nat option set
     \<Rightarrow> (node \<times> real \<times> nat option) list" where
  "select_loop region_of [] selected seen = selected"
| "select_loop region_of ((n, dist_m) # rest) selected seen =
     (let ridx = region_of n;
          selected' = (if ridx \<notin> seen then selected @ [(n, dist_m, ridx)] else selected);
          seen' = (if ridx \<notin> seen then insert ridx seen else seen)
      in if 2 \<le> length selected' then selected'
         else select_loop region_of rest selected' seen')"

text \<open>The loop that builds the routes (lines 211 to 223).\<close>

fun selected_routes ::
  "tload_network \<Rightarrow> string list \<Rightarrow> node \<Rightarrow> (node \<times> real \<times> nat option) list
     \<Rightarrow> py_error + tload_route list" where
  "selected_routes G region_names start_node [] = Inr []"
| "selected_routes G region_names start_node ((n, dist_m, ridx) # rest) =
     (case shortest_path G start_node n of
        None \<Rightarrow> Inl NetworkXNoPath
      | Some path' \<Rightarrow>
          (let length_m = route_length_m G path';
               eta_min' = (length_m / 1000.0) / 25.0 * 60.0
           in case ridx of
                None \<Rightarrow> Inl TypeError
              | Some i \<Rightarrow>
                  if length region_names \<le> i then Inl IndexError
                  else
                    (case selected_routes G region_names start_node rest of
                       Inl e \<Rightarrow> Inl e
                     | Inr rs \<Rightarrow>
                         Inr (\<lparr> dest_region = region_names ! i,
                                dest_region_idx = i,
                                dest_node = n,
                                path = path',
                                distance_km = length_m / 1000.0,
                                eta_min = eta_min' \<rparr> # rs))))"

text \<open>
  \<open>find_two_safest_routes_for_user(user_input_str)\<close>. \<open>not best_match\<close> holds for \<open>None\<close>
  and for the empty string.
\<close>

definition find_two_safest_routes_for_user ::
  "(string \<Rightarrow> string \<Rightarrow> real) \<Rightarrow> tload_network \<Rightarrow> tload_globals \<Rightarrow> string
     \<Rightarrow> py_error + (string option \<times> int \<times> tload_route list)" where
  "find_two_safest_routes_for_user scorer G env user_input_str =
     (let (best, score) = extract_best_match scorer (strip (lower user_input_str)) (regions env)
      in case best of
           None \<Rightarrow> Inr (None, score, [])
         | Some best_match \<Rightarrow>
             if best_match = [] \<or> score < 50 then Inr (None, score, [])
             else
               (case index_of best_match (regions env) of
                  None \<Rightarrow> Inl ValueError
                | Some idx \<Rightarrow>
                    if length (region_lons env) \<le> idx \<or> length (region_lats env) \<le> idx
                    then Inl IndexError
                    else
                      (let start_lon = region_lons env ! idx;
                           start_lat = region_lats env ! idx;
                           start_node = nearest_nodes G start_lon start_lat;
                           low_region_idxs =
                             filter (\<lambda>i. lower (region_risks env ! i) = ''low'')
                               [0 ..< length (region_risks env)]
                       in if low_region_idxs = [] then Inr (Some best_match, score, [])
                          else
                            (let safe_nodes =
                                   map fst (filter (\<lambda>(nid, ridx). ridx \<in> set low_region_idxs)
                                              (nodeid_to_region_idx env))
                             in if safe_nodes = [] then Inr (Some best_match, score, [])
                                else
                                  (let lengths = dijkstra_path_length G start_node;
                                       candidates =
                                         List.map_filter
                                           (\<lambda>n. map_option (Pair n) (lengths n)) safe_nodes
                                   in if candidates = [] then Inr (Some best_match, score, [])
                                      else
                                        (let candidates = sort_key snd candidates;
                                             selected =
                                               select_loop (map_of (nodeid_to_region_idx env))
                                                 candidates [] {}
                                         in case selected_routes G (regions env) start_node selected of
                                              Inl e \<Rightarrow> Inl e
                                            | Inr routes \<Rightarrow>
                                                Inr (Some best_match, score, routes)))))))"





section \<open>Inputs of the worked examples\<close>

text \<open>
  Similarity metrics for the examples: one that gives 100 on an exact match and 0
  otherwise, as an integer (\<open>exact_scorer\<close>) and as a float (\<open>exact_ratio\<close>), and one
  that gives every pair the same score.
\<close>

definition constant_scorer :: "nat \<Rightarrow> string \<Rightarrow> string \<Rightarrow> nat" where
  "constant_scorer k query choice = k"

definition exact_scorer :: "string \<Rightarrow> string \<Rightarrow> nat" where
  "exact_scorer query choice = (if query = choice then 100 else 0)"

definition exact_ratio :: "string \<Rightarrow> string \<Rightarrow> real" where
  "exact_ratio query choice = (if query = choice then 100 else 0)"

text \<open>Three rows of the table of \<open>load_mumbai_data\<close> in app.py.\<close>

definition app_rows :: "area_row list" where
  "app_rows =
     [\<lparr> area_row.Ward_Code = ''A'', area_row.Areas = ''colaba'', area_row.Latitude = 18.9151,
        area_row.Longitude = 72.8141, Flood_Risk_Level = ''High'' \<rparr>,
      \<lparr> area_row.Ward_Code = ''A'', area_row.Areas = ''fort'', area_row.Latitude = 18.9354,
        area_row.Longitude = 72.8354, Flood_Risk_Level = ''Medium'' \<rparr>,
      \<lparr> area_row.Ward_Code = ''C'', area_row.Areas = ''churchgate'', area_row.Latitude = 18.9346,
        area_row.Longitude = 72.8284, Flood_Risk_Level = ''Low'' \<rparr>]"

text \<open>Four rows of the table of \<open>load_mumbai_data\<close> in streamlit\_app.py.\<close>

definition zone_rows :: "zone_row list" where
  "zone_rows =
     [\<lparr> Ward = ''A'', Area_Name = ''colaba'', zone_row.Latitude = 18.9151,
        zone_row.Longitude = 72.8141, Flood_Risk = ''Critical'',
        Evacuation_Priority = ''Immediate'', Population_Density = 50000 \<rparr>,
      \<lparr> Ward = ''A'', Area_Name = ''fort'', zone_row.Latitude = 18.9354,
        zone_row.Longitude = 72.8354, Flood_Risk = ''High'',
        Evacuation_Priority = ''Immediate'', Population_Density = 45000 \<rparr>,
      \<lparr> Ward = ''C'', Area_Name = ''churchgate'', zone_row.Latitude = 18.9346,
        zone_row.Longitude = 72.8284, Flood_Risk = ''Medium'',
        Evacuation_Priority = ''Standard'', Population_Density = 30000 \<rparr>,
      \<lparr> Ward = ''E'', Area_Name = ''cotton green'', zone_row.Latitude = 18.9866,
        zone_row.Longitude = 72.8566, Flood_Risk = ''Low'',
        Evacuation_Priority = ''Safe'', Population_Density = 20000 \<rparr>]"

text \<open>The table of one row: the start and nothing else.\<close>

definition colaba_only :: "area_row list" where
  "colaba_only =
     [\<lparr> area_row.Ward_Code = ''A'', area_row.Areas = ''colaba'', area_row.Latitude = 18.9151,
        area_row.Longitude = 72.8141, Flood_Risk_Level = ''High'' \<rparr>]"

text \<open>
  A table with the columns of mumbai\_ward\_area\_floodrisk.csv, as evacuation\_app\_simple.py
  and evacuation\_app.py read it: a high-risk start and four low-risk areas, the nearest of
  them last.
\<close>

definition simple_colaba :: simple_row where
  "simple_colaba = \<lparr> Ward_Code = ''A'', Areas = ''colaba'', Latitude = 18.9151,
                      Longitude = 72.8141, Flood_risk_level = ''High'' \<rparr>"

definition simple_matunga :: simple_row where
  "simple_matunga = \<lparr> Ward_Code = ''F/N'', Areas = ''matunga'', Latitude = 19.0276,
                       Longitude = 72.8512, Flood_risk_level = ''Low'' \<rparr>"

definition simple_cotton_green :: simple_row where
  "simple_cotton_green = \<lparr> Ward_Code = ''E'', Areas = ''cotton green'', Latitude = 18.9866,
                            Longitude = 72.8566, Flood_risk_level = ''Low'' \<rparr>"

definition simple_byculla :: simple_row where
  "simple_byculla = \<lparr> Ward_Code = ''E'', Areas = ''byculla'', Latitude = 18.9793,
                       Longitude = 72.8355, Flood_risk_level = ''Low'' \<rparr>"

definition simple_churchgate :: simple_row where
  "simple_churchgate = \<lparr> Ward_Code = ''C'', Areas = ''churchgate'', Latitude = 18.9346,
                          Longitude = 72.8284, Flood_risk_level = ''Low'' \<rparr>"

definition simple_rows :: "simple_row list" where
  "simple_rows =
     [simple_colaba, simple_matunga, simple_cotton_green, simple_byculla, simple_churchgate]"

text \<open>
  A table of two regions and a road graph of two nodes for tload.py: node 1 lies in the
  low-risk region, node 2 in the high-risk region, and one road joins them. The library
  call for the edge lengths of a route is taken to fail, so that the fallback is used.
\<close>

definition two_regions :: tload_globals where
  "two_regions =
     \<lparr> regions = [''matunga'', ''colaba''],
       region_lons = [72.8512, 72.8141],
       region_lats = [19.0276, 18.9151],
       region_risks = [''low'', ''high''],
       nodeid_to_region_idx = [(1, 0), (2, 1)] \<rparr>"

definition two_nodes :: tload_network where
  "two_nodes =
     \<lparr> graph_edges =
         [(2, 1, 0, \<lparr> attr_length = Some 13400, attr_risk = None, attr_name = None \<rparr>),
          (1, 2, 0, \<lparr> attr_length = Some 13400, attr_risk = None, attr_name = None \<rparr>)],
       nearest_nodes = (\<lambda>x y. if y = 19.0276 then 1 else 2),
       shortest_path = (\<lambda>u v. if u = v then Some [u] else Some [u, v]),
       dijkstra_path_length = (\<lambda>u. [u \<mapsto> 0, (3 - u) \<mapsto> 13400]),
       route_edge_lengths = (\<lambda>route. None) \<rparr>"

text \<open>
  The table that \<open>load_flood_data\<close> of evacuation\_app\_simple.py builds when the CSV file
  is missing.
\<close>

definition sample_data :: "simple_row list" where
  "sample_data =
     [\<lparr> Ward_Code = ''Ward A'', Areas = ''colaba causeway'', Latitude = 18.9151,
        Longitude = 72.8141, Flood_risk_level = ''Moderate'' \<rparr>,
      \<lparr> Ward_Code = ''Ward B'', Areas = ''fort'', Latitude = 19.0509,
        Longitude = 72.7615, Flood_risk_level = ''Low'' \<rparr>,
      \<lparr> Ward_Code = ''Ward C'', Areas = ''marine lines'', Latitude = 18.9458,
        Longitude = 72.8238, Flood_risk_level = ''Moderate'' \<rparr>,
      \<lparr> Ward_Code = ''A'', Areas = ''ballard estate'', Latitude = 18.9496,
        Longitude = 72.8414, Flood_risk_level = ''Moderate'' \<rparr>,
      \<lparr> Ward_Code = ''B'', Areas = ''dongri circle'', Latitude = 18.9594,
        Longitude = 72.8376, Flood_risk_level = ''Moderate'' \<rparr>,
      \<lparr> Ward_Code = ''C'', Areas = ''cst'', Latitude = 18.9472,
        Longitude = 72.8272, Flood_risk_level = ''Moderate'' \<rparr>]"

text \<open>
  A table of a high-risk start and six low-risk areas, the nearest of them last, with a road
  graph for evacuation\_app.py: node 0 is the node nearest to the start, node \<open>k\<close> the node
  nearest to the \<open>k\<close>-th low-risk area, and one road leads from node 0 to each of them.
\<close>

definition graph_rows :: "simple_row list" where
  "graph_rows =
     [\<lparr> Ward_Code = ''A'', Areas = ''colaba'', Latitude = 18.9151,
        Longitude = 72.8141, Flood_risk_level = ''High'' \<rparr>,
      \<lparr> Ward_Code = ''F/N'', Areas = ''matunga'', Latitude = 19.0276,
        Longitude = 72.8512, Flood_risk_level = ''Low'' \<rparr>,
      \<lparr> Ward_Code = ''F/N'', Areas = ''wadala'', Latitude = 18.9985,
        Longitude = 72.8440, Flood_risk_level = ''Low'' \<rparr>,
      \<lparr> Ward_Code = ''G/N'', Areas = ''mahim'', Latitude = 19.0440,
        Longitude = 72.8440, Flood_risk_level = ''Low'' \<rparr>,
      \<lparr> Ward_Code = ''E'', Areas = ''cotton green'', Latitude = 18.9866,
        Longitude = 72.8566, Flood_risk_level = ''Low'' \<rparr>,
      \<lparr> Ward_Code = ''E'', Areas = ''byculla'', Latitude = 18.9793,
        Longitude = 72.8355, Flood_risk_level = ''Low'' \<rparr>,
      \<lparr> Ward_Code = ''C'', Areas = ''churchgate'', Latitude = 18.9346,
        Longitude = 72.8284, Flood_risk_level = ''Low'' \<rparr>]"

definition star_edge :: "node \<Rightarrow> real \<Rightarrow> node \<times> node \<times> nat \<times> edge_attrs" where
  "star_edge v metres =
     (0, v, 0, \<lparr> attr_length = Some metres, attr_risk = Some 0, attr_name = None \<rparr>)"

definition star_network :: road_network where
  "star_network =
     \<lparr> graph_edges = [star_edge 1 13400, star_edge 2 9800, star_edge 3 14700,
                       star_edge 4 9100, star_edge 5 7500, star_edge 6 2600],
       nearest_nodes = (\<lambda>x y. if y = 18.9151 then 0 else if y = 19.0276 then 1
                               else if y = 18.9985 then 2 else if y = 19.0440 then 3
                               else if y = 18.9866 then 4 else if y = 18.9793 then 5 else 6),
       shortest_path = (\<lambda>u v. if u = v then Some [u] else if u = 0 then Some [0, v] else None) \<rparr>"

definition star_route :: "node \<Rightarrow> real \<Rightarrow> graph_route" where
  "star_route v metres =
     \<lparr> graph_route.path = [0, v], distance_km = metres / 1000, eta_min = (metres / 1000) / 30 * 60,
       risk = 0, roads = {''Unnamed Road''} \<rparr>"

section \<open>The resolver and the ranker of app.py and streamlit\_app.py\<close>

lemma set_unique: "set (unique xs) = set xs"
  by (induction xs rule: unique.induct) auto

lemma extractOne_None_iff: "extractOne scorer query cs = None \<longleftrightarrow> cs = []"
  by (induction cs) (auto split: option.splits)

lemma extractOne_mem:
  "extractOne scorer query cs = Some (b, s) \<Longrightarrow> b \<in> set cs \<and> s = scorer query b"
  by (induction cs arbitrary: b s) (auto split: option.splits if_splits)

lemma extractOne_best:
  "extractOne scorer query cs = Some (b, s) \<Longrightarrow> c \<in> set cs \<Longrightarrow> scorer query c \<le> s"
  by (induction cs arbitrary: b s) (auto split: option.splits if_splits simp: extractOne_None_iff)

lemma filter_eq_key_Cons:
  "m \<in> set (map f xs) \<Longrightarrow> \<exists>y ys. filter (\<lambda>r. f r = m) xs = y # ys"
  by (induction xs) auto

lemma risk_score_of_safe:
  "level \<in> {''Low'', ''Medium''} \<Longrightarrow> \<exists>k. risk_score_of level = Inr k"
  by (auto simp: risk_score_of_def)

lemma route_to_safe:
  "area_row.Flood_Risk_Level z \<in> {''Low'', ''Medium''} \<Longrightarrow> \<exists>r. route_to a b z = Inr r"
  using risk_score_of_safe[of "area_row.Flood_Risk_Level z"]
  by (auto simp: route_to_def Let_def)

lemma routes_loop_safe:
  "\<forall>z \<in> set zs. area_row.Flood_Risk_Level z \<in> {''Low'', ''Medium''} \<Longrightarrow> \<exists>rs. routes_loop a b zs = Inr rs"
proof (induction zs)
  case Nil
  then show ?case by simp
next
  case (Cons z zs)
  then obtain rs where "routes_loop a b zs = Inr rs" by auto
  moreover obtain r where "route_to a b z = Inr r" using route_to_safe[of z a b] Cons.prems by auto
  ultimately show ?case by simp
qed

lemma routes_loop_Inr:
  "routes_loop a b zs = Inr rs \<Longrightarrow> list_all2 (\<lambda>z r. route_to a b z = Inr r) zs rs"
  by (induction zs arbitrary: rs) (auto split: sum.splits)

lemma safe_zones_of_set:
  "z \<in> set (safe_zones_of m df) \<longleftrightarrow>
     z \<in> set df \<and> area_row.Flood_Risk_Level z \<in> {''Low'', ''Medium''} \<and> area_row.Areas z \<noteq> m"
  by (auto simp: safe_zones_of_def)

lemma routes_loop_safe_zones: "\<exists>rs. routes_loop a b (safe_zones_of m df) = Inr rs"
  by (rule routes_loop_safe) (simp add: safe_zones_of_set)

lemma calculate_evacuation_routes_below:
  assumes "extractOne scorer (lower user_area) (unique (map area_row.Areas flood_df)) = Some (m, s)"
    and "s < 50"
  shows "calculate_evacuation_routes scorer user_area flood_df = Inr (None, None, [])"
  using assms by (simp add: calculate_evacuation_routes_def)

lemma calculate_evacuation_routes_resolved:
  assumes ex: "extractOne scorer (lower user_area) (unique (map area_row.Areas flood_df)) = Some (m, s)"
    and s: "50 \<le> s"
  shows "\<exists>start rest rs.
           filter (\<lambda>r. area_row.Areas r = m) flood_df = start # rest \<and>
           routes_loop (area_row.Latitude start) (area_row.Longitude start) (safe_zones_of m flood_df) = Inr rs \<and>
           calculate_evacuation_routes scorer user_area flood_df =
             Inr (Some m, Some s, take 3 (sort_key route.combined_score rs))"
proof -
  from extractOne_mem[OF ex] have "m \<in> set (map area_row.Areas flood_df)"
    by (simp add: set_unique)
  then obtain start rest where f: "filter (\<lambda>r. area_row.Areas r = m) flood_df = start # rest"
    using filter_eq_key_Cons by fast
  obtain rs where rs: "routes_loop (area_row.Latitude start) (area_row.Longitude start) (safe_zones_of m flood_df) = Inr rs"
    using routes_loop_safe_zones by blast
  have "calculate_evacuation_routes scorer user_area flood_df =
             Inr (Some m, Some s, take 3 (sort_key route.combined_score rs))"
    using ex s f rs by (auto simp: calculate_evacuation_routes_def Let_def)
  with f rs show ?thesis by blast
qed

lemma calculate_evacuation_routes_cases:
  assumes "calculate_evacuation_routes scorer user_area flood_df = Inr (bm, sc, rts)"
  shows "(bm = None \<and> sc = None \<and> rts = []) \<or>
         (\<exists>m s start rest rs. bm = Some m \<and> sc = Some s \<and> 50 \<le> s \<and>
            extractOne scorer (lower user_area) (unique (map area_row.Areas flood_df)) = Some (m, s) \<and>
            filter (\<lambda>r. area_row.Areas r = m) flood_df = start # rest \<and>
            routes_loop (area_row.Latitude start) (area_row.Longitude start) (safe_zones_of m flood_df) = Inr rs \<and>
            rts = take 3 (sort_key route.combined_score rs))"
proof (cases "extractOne scorer (lower user_area) (unique (map area_row.Areas flood_df))")
  case None
  with assms show ?thesis by (simp add: calculate_evacuation_routes_def)
next
  case (Some p)
  obtain m s where p: "p = (m, s)" by (cases p)
  show ?thesis
  proof (cases "s < 50")
    case True
    with Some p assms calculate_evacuation_routes_below[of scorer user_area flood_df m s]
    show ?thesis by simp
  next
    case False
    then have "50 \<le> s" by simp
    from calculate_evacuation_routes_resolved[OF Some[unfolded p] this] assms Some p \<open>50 \<le> s\<close>
    show ?thesis by auto
  qed
qed

text \<open>
  On a table that is not empty the function returns a result; on the empty table the
  unpacking of \<open>None\<close> raises \<open>TypeError\<close>.
\<close>

lemma calculate_evacuation_routes_returns:
  assumes "flood_df \<noteq> []"
  shows "\<exists>res. calculate_evacuation_routes scorer user_area flood_df = Inr res"
proof -
  from assms have "unique (map area_row.Areas flood_df) \<noteq> []" by (cases flood_df) simp_all
  then obtain p where p: "extractOne scorer (lower user_area) (unique (map area_row.Areas flood_df)) = Some p"
    using extractOne_None_iff[of scorer "lower user_area" "unique (map area_row.Areas flood_df)"]
    by (cases "extractOne scorer (lower user_area) (unique (map area_row.Areas flood_df))") auto
  obtain m s where ms: "p = (m, s)" by (cases p)
  show ?thesis
  proof (cases "s < 50")
    case True
    from calculate_evacuation_routes_below[OF p[unfolded ms] True] show ?thesis by blast
  next
    case False
    then have "50 \<le> s" by simp
    from calculate_evacuation_routes_resolved[OF p[unfolded ms] this] show ?thesis by blast
  qed
qed

lemma calculate_evacuation_routes_empty:
  "calculate_evacuation_routes scorer user_area [] = Inl TypeError"
  by (simp add: calculate_evacuation_routes_def)

lemma zone_safe_zones_of_set:
  "z \<in> set (zone_safe_zones_of m df) \<longleftrightarrow>
     z \<in> set df \<and> zone_row.Flood_Risk z \<in> {''Low'', ''Medium''} \<and> zone_row.Area_Name z \<noteq> m \<and>
     zone_row.Evacuation_Priority z \<in> {''Safe'', ''Standard''}"
  by (auto simp: zone_safe_zones_of_def)

lemma zone_calculate_evacuation_routes_below:
  assumes "extractOne scorer (lower user_area) (unique (map zone_row.Area_Name flood_df)) = Some (m, s)"
    and "s < 40"
  shows "zone_calculate_evacuation_routes scorer user_area flood_df = Inr (None, None, [])"
  using assms by (simp add: zone_calculate_evacuation_routes_def)

lemma zone_calculate_evacuation_routes_resolved:
  assumes ex: "extractOne scorer (lower user_area) (unique (map zone_row.Area_Name flood_df)) = Some (m, s)"
    and s: "40 \<le> s"
  shows "\<exists>cur rest.
           filter (\<lambda>r. zone_row.Area_Name r = m) flood_df = cur # rest \<and>
           zone_calculate_evacuation_routes scorer user_area flood_df =
             Inr (Some m, Some s,
                  take 5 (sort_key zone_route.route_score
                    (map (zone_route_to (zone_row.Latitude cur) (zone_row.Longitude cur)
                            (zone_row.Flood_Risk cur) (zone_row.Evacuation_Priority cur))
                       (zone_safe_zones_of m flood_df))))"
proof -
  from extractOne_mem[OF ex] have "m \<in> set (map zone_row.Area_Name flood_df)"
    by (simp add: set_unique)
  then obtain cur rest where f: "filter (\<lambda>r. zone_row.Area_Name r = m) flood_df = cur # rest"
    using filter_eq_key_Cons by fast
  have "zone_calculate_evacuation_routes scorer user_area flood_df =
             Inr (Some m, Some s,
                  take 5 (sort_key zone_route.route_score
                    (map (zone_route_to (zone_row.Latitude cur) (zone_row.Longitude cur)
                            (zone_row.Flood_Risk cur) (zone_row.Evacuation_Priority cur))
                       (zone_safe_zones_of m flood_df))))"
    using ex s f by (auto simp: zone_calculate_evacuation_routes_def Let_def)
  with f show ?thesis by blast
qed

lemma zone_calculate_evacuation_routes_cases:
  assumes "zone_calculate_evacuation_routes scorer user_area flood_df = Inr (bm, sc, rts)"
  shows "(bm = None \<and> sc = None \<and> rts = []) \<or>
         (\<exists>m s cur rest. bm = Some m \<and> sc = Some s \<and> 40 \<le> s \<and>
            extractOne scorer (lower user_area) (unique (map zone_row.Area_Name flood_df)) = Some (m, s) \<and>
            filter (\<lambda>r. zone_row.Area_Name r = m) flood_df = cur # rest \<and>
            rts = take 5 (sort_key zone_route.route_score
                    (map (zone_route_to (zone_row.Latitude cur) (zone_row.Longitude cur)
                            (zone_row.Flood_Risk cur) (zone_row.Evacuation_Priority cur))
                       (zone_safe_zones_of m flood_df))))"
proof (cases "extractOne scorer (lower user_area) (unique (map zone_row.Area_Name flood_df))")
  case None
  with assms show ?thesis by (simp add: zone_calculate_evacuation_routes_def)
next
  case (Some p)
  obtain m s where p: "p = (m, s)" by (cases p)
  show ?thesis
  proof (cases "s < 40")
    case True
    with Some p assms zone_calculate_evacuation_routes_below[of scorer user_area flood_df m s]
    show ?thesis by simp
  next
    case False
    then have "40 \<le> s" by simp
    from zone_calculate_evacuation_routes_resolved[OF Some[unfolded p] this] assms Some p \<open>40 \<le> s\<close>
    show ?thesis by auto
  qed
qed

lemma route_to_fields:
  "route_to a b z = Inr r \<Longrightarrow>
     route.destination r = title (area_row.Areas z) \<and>
     route.risk_level r = area_row.Flood_Risk_Level z"
  by (auto simp: route_to_def Let_def split: sum.splits)

lemma routes_loop_sources:
  "routes_loop a b zs = Inr rs \<Longrightarrow> r \<in> set rs \<Longrightarrow> \<exists>z \<in> set zs. route_to a b z = Inr r"
  by (induction zs arbitrary: rs) (auto split: sum.splits)

lemma calculate_evacuation_routes_sources:
  assumes "calculate_evacuation_routes scorer user_area flood_df = Inr (Some m, sc, rts)"
    and "r \<in> set rts"
  shows "\<exists>start z. start \<in> set flood_df \<and> area_row.Areas start = m \<and> z \<in> set flood_df \<and>
           area_row.Flood_Risk_Level z \<in> {''Low'', ''Medium''} \<and> area_row.Areas z \<noteq> m \<and>
           route_to (area_row.Latitude start) (area_row.Longitude start) z = Inr r"
proof -
  from calculate_evacuation_routes_cases[OF assms(1)]
  obtain s start rest rs where
    f: "filter (\<lambda>r. area_row.Areas r = m) flood_df = start # rest" and
    l: "routes_loop (area_row.Latitude start) (area_row.Longitude start) (safe_zones_of m flood_df) = Inr rs" and
    t: "rts = take 3 (sort_key route.combined_score rs)"
    by auto
  from f have "start \<in> set (filter (\<lambda>r. area_row.Areas r = m) flood_df)" by simp
  then have st: "start \<in> set flood_df" "area_row.Areas start = m" by auto
  from assms(2) t have "r \<in> set rs" by (auto dest: in_set_takeD)
  from routes_loop_sources[OF l this] obtain z where
    "z \<in> set (safe_zones_of m flood_df)" "route_to (area_row.Latitude start) (area_row.Longitude start) z = Inr r"
    by blast
  with st show ?thesis by (auto simp: safe_zones_of_set)
qed

lemma zone_calculate_evacuation_routes_sources:
  assumes "zone_calculate_evacuation_routes scorer user_area flood_df = Inr (Some m, sc, rts)"
    and "r \<in> set rts"
  shows "\<exists>cur z. cur \<in> set flood_df \<and> zone_row.Area_Name cur = m \<and> z \<in> set flood_df \<and>
           zone_row.Flood_Risk z \<in> {''Low'', ''Medium''} \<and> zone_row.Area_Name z \<noteq> m \<and>
           zone_row.Evacuation_Priority z \<in> {''Safe'', ''Standard''} \<and>
           r = zone_route_to (zone_row.Latitude cur) (zone_row.Longitude cur)
                 (zone_row.Flood_Risk cur) (zone_row.Evacuation_Priority cur) z"
proof -
  from zone_calculate_evacuation_routes_cases[OF assms(1)]
  obtain s cur rest where
    f: "filter (\<lambda>r. zone_row.Area_Name r = m) flood_df = cur # rest" and
    t: "rts = take 5 (sort_key zone_route.route_score
                    (map (zone_route_to (zone_row.Latitude cur) (zone_row.Longitude cur)
                            (zone_row.Flood_Risk cur) (zone_row.Evacuation_Priority cur))
                       (zone_safe_zones_of m flood_df)))"
    by auto
  from f have "cur \<in> set (filter (\<lambda>r. zone_row.Area_Name r = m) flood_df)" by simp
  then have st: "cur \<in> set flood_df" "zone_row.Area_Name cur = m" by auto
  from assms(2) t obtain z where "z \<in> set (zone_safe_zones_of m flood_df)"
    "r = zone_route_to (zone_row.Latitude cur) (zone_row.Longitude cur)
                 (zone_row.Flood_Risk cur) (zone_row.Evacuation_Priority cur) z"
    by (auto dest!: in_set_takeD)
  with st show ?thesis by (auto simp: zone_safe_zones_of_set)
qed

text \<open>
  Claim C1. Whenever app.py's or streamlit\_app.py's \<open>calculate_evacuation_routes\<close>
  resolves the query to a start location, every route it returns has the flood risk level
  \<open>Low\<close> or \<open>Medium\<close>, and is the route to a row of the table with that risk level: a
  destination whose risk is worse than the ceiling is never returned.
\<close>

theorem safety_filter:
  "(calculate_evacuation_routes scorer user_area flood_df = Inr (Some m, sc, rts) \<longrightarrow>
      (\<forall>r \<in> set rts. route.risk_level r \<in> {''Low'', ''Medium''} \<and>
         (\<exists>z \<in> set flood_df. area_row.Flood_Risk_Level z = route.risk_level r \<and>
                              title (area_row.Areas z) = route.destination r))) \<and>
   (zone_calculate_evacuation_routes scorer user_area zone_df = Inr (Some m', sc', zone_rts) \<longrightarrow>
      (\<forall>r \<in> set zone_rts. zone_route.risk_level r \<in> {''Low'', ''Medium''} \<and>
         (\<exists>z \<in> set zone_df. zone_row.Flood_Risk z = zone_route.risk_level r \<and>
                              title (zone_row.Area_Name z) = zone_route.destination r)))"
proof (intro conjI impI ballI)
  fix r assume a: "calculate_evacuation_routes scorer user_area flood_df = Inr (Some m, sc, rts)"
    and r: "r \<in> set rts"
  from calculate_evacuation_routes_sources[OF a r] obtain start z where
    z: "z \<in> set flood_df" "area_row.Flood_Risk_Level z \<in> {''Low'', ''Medium''}"
       "route_to (area_row.Latitude start) (area_row.Longitude start) z = Inr r"
       "start \<in> set flood_df"
    by blast
  from route_to_fields[OF z(3)] z(1,2)
  show "route.risk_level r \<in> {''Low'', ''Medium''}"
    "\<exists>z \<in> set flood_df. area_row.Flood_Risk_Level z = route.risk_level r \<and>
                              title (area_row.Areas z) = route.destination r"
    by auto
next
  fix r assume a: "zone_calculate_evacuation_routes scorer user_area zone_df = Inr (Some m', sc', zone_rts)"
    and r: "r \<in> set zone_rts"
  from zone_calculate_evacuation_routes_sources[OF a r] obtain cur z where
    z: "z \<in> set zone_df" "zone_row.Flood_Risk z \<in> {''Low'', ''Medium''}"
       "r = zone_route_to (zone_row.Latitude cur) (zone_row.Longitude cur)
                 (zone_row.Flood_Risk cur) (zone_row.Evacuation_Priority cur) z"
       "cur \<in> set zone_df"
    by blast
  then show "zone_route.risk_level r \<in> {''Low'', ''Medium''}"
    "\<exists>z \<in> set zone_df. zone_row.Flood_Risk z = zone_route.risk_level r \<and>
                              title (zone_row.Area_Name z) = zone_route.destination r"
    by (auto simp: zone_route_to_def Let_def)
qed

lemma app_rows_match:
  "extractOne exact_scorer (lower ''Colaba'') (unique (map area_row.Areas app_rows)) = Some (''colaba'', 100)"
  by code_simp

lemma zone_rows_match:
  "extractOne exact_scorer (lower ''Colaba'') (unique (map zone_row.Area_Name zone_rows)) = Some (''colaba'', 100)"
  by code_simp

lemma routes_loop_maps:
  "routes_loop a b zs = Inr rs \<Longrightarrow>
     map route.destination rs = map (\<lambda>z. title (area_row.Areas z)) zs \<and>
     map route.risk_level rs = map area_row.Flood_Risk_Level zs"
  by (induction zs arbitrary: rs) (auto split: sum.splits dest: route_to_fields)

lemma set_map_take_sort_key:
  "length xs \<le> n \<Longrightarrow> set (map g (take n (sort_key f xs))) = set (map g xs)"
  by simp

lemma app_rows_result:
  "\<exists>rs. calculate_evacuation_routes exact_scorer ''Colaba'' app_rows =
      Inr (Some ''colaba'', Some 100, take 3 (sort_key route.combined_score rs)) \<and>
      map route.destination rs = [''Fort'', ''Churchgate'']"
proof -
  from calculate_evacuation_routes_resolved[OF app_rows_match]
  obtain start rest rs where
    f: "filter (\<lambda>r. area_row.Areas r = ''colaba'') app_rows = start # rest" and
    l: "routes_loop (area_row.Latitude start) (area_row.Longitude start)
          (safe_zones_of ''colaba'' app_rows) = Inr rs" and
    c: "calculate_evacuation_routes exact_scorer ''Colaba'' app_rows =
          Inr (Some ''colaba'', Some 100, take 3 (sort_key route.combined_score rs))"
    by force
  have t: "title ''fort'' = ''Fort''" "title ''churchgate'' = ''Churchgate''" by code_simp+
  from routes_loop_maps[OF l] have "map route.destination rs = [''Fort'', ''Churchgate'']"
    by (simp add: app_rows_def safe_zones_of_def t)
  with c show ?thesis by (intro exI[of _ rs] conjI)
qed

lemma zone_rows_result:
  "\<exists>rs. zone_calculate_evacuation_routes exact_scorer ''Colaba'' zone_rows =
      Inr (Some ''colaba'', Some 100, take 5 (sort_key zone_route.route_score rs)) \<and>
      map zone_route.destination rs = [''Churchgate'', ''Cotton Green'']"
proof -
  have t: "title ''cotton green'' = ''Cotton Green''" "title ''churchgate'' = ''Churchgate''" by code_simp+
  from zone_calculate_evacuation_routes_resolved[OF zone_rows_match]
  obtain cur rest where
    f: "filter (\<lambda>r. zone_row.Area_Name r = ''colaba'') zone_rows = cur # rest" and
    c: "zone_calculate_evacuation_routes exact_scorer ''Colaba'' zone_rows =
          Inr (Some ''colaba'', Some 100, take 5 (sort_key zone_route.route_score
             (map (zone_route_to (zone_row.Latitude cur) (zone_row.Longitude cur)
                            (zone_row.Flood_Risk cur) (zone_row.Evacuation_Priority cur))
                       (zone_safe_zones_of ''colaba'' zone_rows))))"
    by force
  have "map zone_route.destination (map (zone_route_to (zone_row.Latitude cur) (zone_row.Longitude cur)
                            (zone_row.Flood_Risk cur) (zone_row.Evacuation_Priority cur))
                       (zone_safe_zones_of ''colaba'' zone_rows)) = [''Churchgate'', ''Cotton Green'']"
    by (simp add: zone_rows_def zone_safe_zones_of_def zone_route_to_def Let_def t)
  with c show ?thesis by (intro exI conjI)
qed

theorem safety_filter_witness:
  "\<exists>rts zone_rts.
     calculate_evacuation_routes exact_scorer ''Colaba'' app_rows =
       Inr (Some ''colaba'', Some 100, rts) \<and>
     set (map route.destination rts) = {''Fort'', ''Churchgate''} \<and>
     list_all (\<lambda>r. route.risk_level r \<in> {''Low'', ''Medium''}) rts \<and>
     zone_calculate_evacuation_routes exact_scorer ''Colaba'' zone_rows =
       Inr (Some ''colaba'', Some 100, zone_rts) \<and>
     set (map zone_route.destination zone_rts) = {''Churchgate'', ''Cotton Green''} \<and>
     list_all (\<lambda>r. zone_route.risk_level r \<in> {''Low'', ''Medium''}) zone_rts"
proof -
  from app_rows_result obtain rs where a:
    "calculate_evacuation_routes exact_scorer ''Colaba'' app_rows =
      Inr (Some ''colaba'', Some 100, take 3 (sort_key route.combined_score rs))"
    "map route.destination rs = [''Fort'', ''Churchgate'']"
    by (elim exE conjE)
  from zone_rows_result obtain zs where z:
    "zone_calculate_evacuation_routes exact_scorer ''Colaba'' zone_rows =
      Inr (Some ''colaba'', Some 100, take 5 (sort_key zone_route.route_score zs))"
    "map zone_route.destination zs = [''Churchgate'', ''Cotton Green'']"
    by (elim exE conjE)
  have "length (map route.destination rs) = 2" by (simp only: a(2)) simp
  then have "length rs \<le> 3" by simp
  from set_map_take_sort_key[OF this, of route.destination route.combined_score]
  have sa: "set (map route.destination (take 3 (sort_key route.combined_score rs))) = {''Fort'', ''Churchgate''}"
    by (simp only: a(2)) simp
  have "length (map zone_route.destination zs) = 2" by (simp only: z(2)) simp
  then have "length zs \<le> 5" by simp
  from set_map_take_sort_key[OF this, of zone_route.destination zone_route.route_score]
  have sz: "set (map zone_route.destination (take 5 (sort_key zone_route.route_score zs))) = {''Churchgate'', ''Cotton Green''}"
    by (simp only: z(2)) simp
  from safety_filter[of exact_scorer "''Colaba''" app_rows "''colaba''" "Some 100"
      "take 3 (sort_key route.combined_score rs)" zone_rows "''colaba''" "Some 100"
      "take 5 (sort_key zone_route.route_score zs)"] a(1) z(1)
  have "list_all (\<lambda>r. route.risk_level r \<in> {''Low'', ''Medium''}) (take 3 (sort_key route.combined_score rs))"
    "list_all (\<lambda>r. zone_route.risk_level r \<in> {''Low'', ''Medium''}) (take 5 (sort_key zone_route.route_score zs))"
    by (simp_all only: list_all_iff) blast+
  with a(1) z(1) sa sz show ?thesis by (intro exI conjI)
qed

lemma sorted_take_sort_key:
  "sorted (map f (take n (sort_key f xs))) \<and> length (take n (sort_key f xs)) \<le> n"
proof -
  have "sorted (take n (map f (sort_key f xs)))"
    by (rule sorted_wrt_take) (rule sorted_sort_key)
  then show ?thesis by (simp add: take_map)
qed

lemma sorted_adjacent:
  "sorted (map f xs) \<Longrightarrow> Suc i < length xs \<Longrightarrow> f (xs ! i) \<le> f (xs ! Suc i)"
  using sorted_nth_mono[of "map f xs" i "Suc i"] by simp

lemma calculate_evacuation_routes_shape:
  assumes "calculate_evacuation_routes scorer user_area flood_df = Inr (bm, sc, rts)"
  shows "\<exists>rs. rts = take 3 (sort_key route.combined_score rs)"
proof -
  from calculate_evacuation_routes_cases[OF assms]
  have "rts = take 3 (sort_key route.combined_score []) \<or> (\<exists>rs. rts = take 3 (sort_key route.combined_score rs))"
    by auto
  then show ?thesis by blast
qed

lemma zone_calculate_evacuation_routes_shape:
  assumes "zone_calculate_evacuation_routes scorer user_area flood_df = Inr (bm, sc, rts)"
  shows "\<exists>rs. rts = take 5 (sort_key zone_route.route_score rs)"
proof -
  from zone_calculate_evacuation_routes_cases[OF assms]
  have "rts = take 5 (sort_key zone_route.route_score []) \<or> (\<exists>rs. rts = take 5 (sort_key zone_route.route_score rs))"
    by auto
  then show ?thesis by blast
qed

lemma calculate_simple_routes_below:
  assumes "extractOne scorer (lower user_area) (unique (map simple_row.Areas flood_df)) = Some (m, s)"
    and "s < 60"
  shows "calculate_simple_routes scorer user_area flood_df = Inr (None, None, [])"
  using assms by (simp add: calculate_simple_routes_def)

lemma calculate_simple_routes_resolved:
  assumes ex: "extractOne scorer (lower user_area) (unique (map simple_row.Areas flood_df)) = Some (m, s)"
    and s: "60 \<le> s"
  shows "\<exists>start rest.
           filter (\<lambda>r. simple_row.Areas r = m) flood_df = start # rest \<and>
           calculate_simple_routes scorer user_area flood_df =
             Inr (Some m, Some s,
                  take 2 (sort_key simple_route.distance_km
                    (map (simple_route_to (simple_row.Latitude start) (simple_row.Longitude start))
                       (take 3 (safe_areas_of flood_df)))))"
proof -
  from extractOne_mem[OF ex] have "m \<in> set (map simple_row.Areas flood_df)"
    by (simp add: set_unique)
  then obtain start rest where f: "filter (\<lambda>r. simple_row.Areas r = m) flood_df = start # rest"
    using filter_eq_key_Cons by fast
  have "calculate_simple_routes scorer user_area flood_df =
             Inr (Some m, Some s,
                  take 2 (sort_key simple_route.distance_km
                    (map (simple_route_to (simple_row.Latitude start) (simple_row.Longitude start))
                       (take 3 (safe_areas_of flood_df)))))"
    using ex s f by (auto simp: calculate_simple_routes_def Let_def)
  with f show ?thesis by blast
qed

lemma calculate_simple_routes_cases:
  assumes "calculate_simple_routes scorer user_area flood_df = Inr (bm, sc, rts)"
  shows "(bm = None \<and> sc = None \<and> rts = []) \<or>
         (\<exists>m s start rest. bm = Some m \<and> sc = Some s \<and> 60 \<le> s \<and>
            extractOne scorer (lower user_area) (unique (map simple_row.Areas flood_df)) = Some (m, s) \<and>
            filter (\<lambda>r. simple_row.Areas r = m) flood_df = start # rest \<and>
            rts = take 2 (sort_key simple_route.distance_km
                    (map (simple_route_to (simple_row.Latitude start) (simple_row.Longitude start))
                       (take 3 (safe_areas_of flood_df)))))"
proof (cases "extractOne scorer (lower user_area) (unique (map simple_row.Areas flood_df))")
  case None
  with assms show ?thesis by (simp add: calculate_simple_routes_def)
next
  case (Some p)
  obtain m s where p: "p = (m, s)" by (cases p)
  show ?thesis
  proof (cases "s < 60")
    case True
    with Some p assms calculate_simple_routes_below[of scorer user_area flood_df m s]
    show ?thesis by simp
  next
    case False
    then have "60 \<le> s" by simp
    from calculate_simple_routes_resolved[OF Some[unfolded p] this] assms Some p \<open>60 \<le> s\<close>
    show ?thesis by auto
  qed
qed

lemma calculate_simple_routes_shape:
  assumes "calculate_simple_routes scorer user_area flood_df = Inr (bm, sc, rts)"
  shows "\<exists>rs. rts = take 2 (sort_key simple_route.distance_km rs)"
proof -
  from calculate_simple_routes_cases[OF assms]
  have "rts = take 2 (sort_key simple_route.distance_km []) \<or> (\<exists>rs. rts = take 2 (sort_key simple_route.distance_km rs))"
    by auto
  then show ?thesis by blast
qed

section \<open>The order and the length of the route list\<close>

lemma simple_rows_match:
  "extractOne exact_scorer (lower ''Colaba'') (unique (map simple_row.Areas simple_rows)) =
     Some (''colaba'', 100)"
  by code_simp

lemma simple_rows_safe:
  "safe_areas_of simple_rows = [simple_matunga, simple_cotton_green, simple_byculla, simple_churchgate]"
proof -
  have "lower ''High'' = ''high''" "lower ''Low'' = ''low''" by code_simp+
  then show ?thesis
    by (simp add: safe_areas_of_def simple_rows_def simple_colaba_def simple_matunga_def
        simple_cotton_green_def simple_byculla_def simple_churchgate_def)
qed

lemma simple_rows_start:
  "filter (\<lambda>r. simple_row.Areas r = ''colaba'') simple_rows = [simple_colaba]"
  by (simp add: simple_rows_def simple_colaba_def simple_matunga_def
        simple_cotton_green_def simple_byculla_def simple_churchgate_def)

lemma simple_distances:
  "simple_route.distance_km (simple_route_to 18.9151 72.8141 simple_byculla)
     < simple_route.distance_km (simple_route_to 18.9151 72.8141 simple_cotton_green)"
  "simple_route.distance_km (simple_route_to 18.9151 72.8141 simple_cotton_green)
     < simple_route.distance_km (simple_route_to 18.9151 72.8141 simple_matunga)"
  "simple_route.distance_km (simple_route_to 18.9151 72.8141 simple_churchgate)
     < simple_route.distance_km (simple_route_to 18.9151 72.8141 simple_byculla)"
  by (simp_all add: simple_route_to_def Let_def simple_matunga_def
        simple_cotton_green_def simple_byculla_def simple_churchgate_def power2_eq_square)

lemma simple_rows_result:
  "calculate_simple_routes exact_scorer ''Colaba'' simple_rows =
     Inr (Some ''colaba'', Some 100,
          [simple_route_to 18.9151 72.8141 simple_byculla,
           simple_route_to 18.9151 72.8141 simple_cotton_green])"
proof -
  from calculate_simple_routes_resolved[OF simple_rows_match]
  have "calculate_simple_routes exact_scorer ''Colaba'' simple_rows =
     Inr (Some ''colaba'', Some 100,
       take 2 (sort_key simple_route.distance_km
                    (map (simple_route_to (simple_row.Latitude simple_colaba) (simple_row.Longitude simple_colaba))
                       (take 3 (safe_areas_of simple_rows)))))"
    by (simp add: simple_rows_start del: sort_key_simps)
  also have "simple_row.Latitude simple_colaba = 18.9151" by (simp add: simple_colaba_def)
  also have "simple_row.Longitude simple_colaba = 72.8141" by (simp add: simple_colaba_def)
  finally show ?thesis
    using simple_distances by (simp add: simple_rows_safe)
qed

text \<open>
  Claim C3. The route list that the ranker returns is in ascending order of the score it is
  sorted by, position by position, and has at most K entries: K is 3 and the score is
  \<open>combined_score\<close> in app.py, K is 5 and the score is \<open>route_score\<close> in streamlit\_app.py,
  K is 2 and the score is \<open>distance_km\<close> in evacuation\_app\_simple.py.
\<close>

theorem ranking_order:
  "(calculate_evacuation_routes scorer user_area flood_df = Inr (bm, sc, rts) \<longrightarrow>
      length rts \<le> 3 \<and>
      (\<forall>i. Suc i < length rts \<longrightarrow>
           route.combined_score (rts ! i) \<le> route.combined_score (rts ! Suc i))) \<and>
   (zone_calculate_evacuation_routes scorer user_area zone_df = Inr (bm', sc', zone_rts) \<longrightarrow>
      length zone_rts \<le> 5 \<and>
      (\<forall>i. Suc i < length zone_rts \<longrightarrow>
           zone_route.route_score (zone_rts ! i) \<le> zone_route.route_score (zone_rts ! Suc i))) \<and>
   (calculate_simple_routes scorer user_area simple_df = Inr (bm'', sc'', simple_rts) \<longrightarrow>
      length simple_rts \<le> 2 \<and>
      (\<forall>i. Suc i < length simple_rts \<longrightarrow>
           simple_route.distance_km (simple_rts ! i) \<le> simple_route.distance_km (simple_rts ! Suc i)))"
proof (intro conjI impI allI)
  assume "calculate_evacuation_routes scorer user_area flood_df = Inr (bm, sc, rts)"
  then obtain rs where rts: "rts = take 3 (sort_key route.combined_score rs)"
    using calculate_evacuation_routes_shape by blast
  with sorted_take_sort_key[of route.combined_score 3 rs]
  show "length rts \<le> 3" by simp
  fix i assume "Suc i < length rts"
  with rts sorted_take_sort_key[of route.combined_score 3 rs]
  show "route.combined_score (rts ! i) \<le> route.combined_score (rts ! Suc i)"
    by (simp only: sorted_adjacent)
next
  assume "zone_calculate_evacuation_routes scorer user_area zone_df = Inr (bm', sc', zone_rts)"
  then obtain rs where rts: "zone_rts = take 5 (sort_key zone_route.route_score rs)"
    using zone_calculate_evacuation_routes_shape by blast
  with sorted_take_sort_key[of zone_route.route_score 5 rs]
  show "length zone_rts \<le> 5" by simp
  fix i assume "Suc i < length zone_rts"
  with rts sorted_take_sort_key[of zone_route.route_score 5 rs]
  show "zone_route.route_score (zone_rts ! i) \<le> zone_route.route_score (zone_rts ! Suc i)"
    by (simp only: sorted_adjacent)
next
  assume "calculate_simple_routes scorer user_area simple_df = Inr (bm'', sc'', simple_rts)"
  then obtain rs where rts: "simple_rts = take 2 (sort_key simple_route.distance_km rs)"
    using calculate_simple_routes_shape by blast
  with sorted_take_sort_key[of simple_route.distance_km 2 rs]
  show "length simple_rts \<le> 2" by simp
  fix i assume "Suc i < length simple_rts"
  with rts sorted_take_sort_key[of simple_route.distance_km 2 rs]
  show "simple_route.distance_km (simple_rts ! i) \<le> simple_route.distance_km (simple_rts ! Suc i)"
    by (simp only: sorted_adjacent)
qed

theorem ranking_order_witness:
  "\<exists>rts zone_rts.
     calculate_evacuation_routes exact_scorer ''Colaba'' app_rows =
       Inr (Some ''colaba'', Some 100, rts) \<and>
     length rts = 2 \<and> route.combined_score (rts ! 0) \<le> route.combined_score (rts ! 1) \<and>
     zone_calculate_evacuation_routes exact_scorer ''Colaba'' zone_rows =
       Inr (Some ''colaba'', Some 100, zone_rts) \<and>
     length zone_rts = 2 \<and>
     zone_route.route_score (zone_rts ! 0) \<le> zone_route.route_score (zone_rts ! 1) \<and>
     calculate_simple_routes exact_scorer ''Colaba'' simple_rows =
       Inr (Some ''colaba'', Some 100,
            [simple_route_to 18.9151 72.8141 simple_byculla,
             simple_route_to 18.9151 72.8141 simple_cotton_green]) \<and>
     simple_route.distance_km (simple_route_to 18.9151 72.8141 simple_byculla)
       \<le> simple_route.distance_km (simple_route_to 18.9151 72.8141 simple_cotton_green)"
proof -
  from app_rows_result obtain rs where a:
    "calculate_evacuation_routes exact_scorer ''Colaba'' app_rows =
      Inr (Some ''colaba'', Some 100, take 3 (sort_key route.combined_score rs))"
    "map route.destination rs = [''Fort'', ''Churchgate'']"
    by (elim exE conjE)
  from zone_rows_result obtain zs where z:
    "zone_calculate_evacuation_routes exact_scorer ''Colaba'' zone_rows =
      Inr (Some ''colaba'', Some 100, take 5 (sort_key zone_route.route_score zs))"
    "map zone_route.destination zs = [''Churchgate'', ''Cotton Green'']"
    by (elim exE conjE)
  let ?rts = "take 3 (sort_key route.combined_score rs)"
  let ?zts = "take 5 (sort_key zone_route.route_score zs)"
  let ?sts = "[simple_route_to 18.9151 72.8141 simple_byculla,
             simple_route_to 18.9151 72.8141 simple_cotton_green]"
  have "length (map route.destination rs) = 2" by (simp only: a(2)) simp
  then have la: "length ?rts = 2" by simp
  have "length (map zone_route.destination zs) = 2" by (simp only: z(2)) simp
  then have lz: "length ?zts = 2" by simp
  note r = ranking_order[of exact_scorer "''Colaba''" app_rows "Some ''colaba''" "Some 100" ?rts
      zone_rows "Some ''colaba''" "Some 100" ?zts simple_rows "Some ''colaba''" "Some 100" ?sts]
  from r a(1) la have 1: "route.combined_score (?rts ! 0) \<le> route.combined_score (?rts ! 1)"
    by (metis One_nat_def Suc_1 lessI)
  from r z(1) lz have 2: "zone_route.route_score (?zts ! 0) \<le> zone_route.route_score (?zts ! 1)"
    by (metis One_nat_def Suc_1 lessI)
  from r simple_rows_result
  have "simple_route.distance_km (?sts ! 0) \<le> simple_route.distance_km (?sts ! Suc 0)"
    by (metis One_nat_def Suc_1 lessI length_Cons list.size(3))
  then have 3: "simple_route.distance_km (simple_route_to 18.9151 72.8141 simple_byculla)
       \<le> simple_route.distance_km (simple_route_to 18.9151 72.8141 simple_cotton_green)"
    by simp
  from a(1) la 1 z(1) lz 2 simple_rows_result 3 show ?thesis
    by (intro exI conjI)
qed

lemma real_route_to_safe:
  "area_row.Flood_Risk_Level z \<in> {''Low'', ''Medium''} \<Longrightarrow> \<exists>r. real_route_to a b z = Inr r"
  using risk_score_of_safe[of "area_row.Flood_Risk_Level z"]
  by (auto simp: real_route_to_def Let_def)

lemma real_routes_loop_safe:
  "\<forall>z \<in> set zs. area_row.Flood_Risk_Level z \<in> {''Low'', ''Medium''} \<Longrightarrow>
     \<exists>rs. real_routes_loop a b zs = Inr rs"
proof (induction zs)
  case Nil
  then show ?case by simp
next
  case (Cons z zs)
  then obtain rs where "real_routes_loop a b zs = Inr rs" by auto
  moreover obtain r where "real_route_to a b z = Inr r"
    using real_route_to_safe[of z a b] Cons.prems by auto
  ultimately show ?case by simp
qed

lemma real_calculate_evacuation_routes_below:
  assumes "extractOne scorer (lower user_area) (unique (map area_row.Areas flood_df)) = Some (m, s)"
    and "s < 50"
  shows "real_calculate_evacuation_routes scorer user_area flood_df = Inr (None, None, [])"
  using assms by (simp add: real_calculate_evacuation_routes_def)

lemma real_calculate_evacuation_routes_resolved:
  assumes ex: "extractOne scorer (lower user_area) (unique (map area_row.Areas flood_df)) = Some (m, s)"
    and s: "50 \<le> s"
  shows "\<exists>start rest rs.
           filter (\<lambda>r. area_row.Areas r = m) flood_df = start # rest \<and>
           real_routes_loop (area_row.Latitude start) (area_row.Longitude start)
             (safe_zones_of m flood_df) = Inr rs \<and>
           real_calculate_evacuation_routes scorer user_area flood_df =
             Inr (Some m, Some s, take 3 (sort_key route.combined_score rs))"
proof -
  from extractOne_mem[OF ex] have "m \<in> set (map area_row.Areas flood_df)"
    by (simp add: set_unique)
  then obtain start rest where f: "filter (\<lambda>r. area_row.Areas r = m) flood_df = start # rest"
    using filter_eq_key_Cons by fast
  obtain rs where rs: "real_routes_loop (area_row.Latitude start) (area_row.Longitude start)
      (safe_zones_of m flood_df) = Inr rs"
    using real_routes_loop_safe[of "safe_zones_of m flood_df"] by (auto simp: safe_zones_of_set)
  have "real_calculate_evacuation_routes scorer user_area flood_df =
             Inr (Some m, Some s, take 3 (sort_key route.combined_score rs))"
    using ex s f rs by (auto simp: real_calculate_evacuation_routes_def Let_def)
  with f rs show ?thesis by blast
qed

lemma real_calculate_evacuation_routes_cases:
  assumes "real_calculate_evacuation_routes scorer user_area flood_df = Inr (bm, sc, rts)"
  shows "(bm = None \<and> sc = None \<and> rts = []) \<or>
         (\<exists>m s. bm = Some m \<and> sc = Some s \<and> 50 \<le> s \<and>
            extractOne scorer (lower user_area) (unique (map area_row.Areas flood_df)) = Some (m, s))"
proof (cases "extractOne scorer (lower user_area) (unique (map area_row.Areas flood_df))")
  case None
  with assms show ?thesis by (simp add: real_calculate_evacuation_routes_def)
next
  case (Some p)
  obtain m s where p: "p = (m, s)" by (cases p)
  show ?thesis
  proof (cases "s < 50")
    case True
    with Some p assms real_calculate_evacuation_routes_below[of scorer user_area flood_df m s]
    show ?thesis by simp
  next
    case False
    then have "50 \<le> s" by simp
    from real_calculate_evacuation_routes_resolved[OF Some[unfolded p] this] assms Some p \<open>50 \<le> s\<close>
    show ?thesis by auto
  qed
qed

section \<open>The acceptance threshold\<close>

text \<open>
  In mumbai\_evacuation\_complete.py the loop body indexes the urgency dictionary with the
  evacuation priority of the start (line 350). With one of the four keys every iteration
  gives a route; with another value the first iteration raises \<open>KeyError\<close>.
\<close>

lemma advanced_routes_loop_valid:
  "urgency_multiplier_of p = Inr u \<Longrightarrow> \<exists>rs. advanced_routes_loop a b c p zs = Inr rs"
  by (induction zs) (auto simp: advanced_route_to_def Let_def)

lemma advanced_routes_loop_KeyError:
  "urgency_multiplier_of p = Inl e \<Longrightarrow> zs \<noteq> [] \<Longrightarrow> advanced_routes_loop a b c p zs = Inl e"
  by (cases zs) (auto simp: advanced_route_to_def Let_def)

lemma urgency_multiplier_of_valid:
  assumes "p \<in> {''Immediate'', ''Urgent'', ''Standard'', ''Safe''}"
  shows "\<exists>u. urgency_multiplier_of p = Inr u"
proof -
  have "urgency_multiplier_of p =
          Inr (if p = ''Immediate'' then 3 else if p = ''Urgent'' then 2
               else if p = ''Standard'' then 1.5 else 1)"
    using assms by (auto simp: urgency_multiplier_of_def)
  then show ?thesis by (rule exI)
qed

lemma urgency_multiplier_of_invalid:
  assumes "p \<notin> {''Immediate'', ''Urgent'', ''Standard'', ''Safe''}"
  shows "urgency_multiplier_of p = Inl KeyError"
  using assms by (simp add: urgency_multiplier_of_def)

lemma calculate_advanced_evacuation_routes_below:
  assumes "extractOne scorer (lower user_area) (unique (map zone_row.Area_Name flood_df)) = Some (m, s)"
    and "s < 40"
  shows "calculate_advanced_evacuation_routes scorer user_area flood_df = Inr (None, None, [])"
  using assms by (simp add: calculate_advanced_evacuation_routes_def)

lemma calculate_advanced_evacuation_routes_start:
  assumes ex: "extractOne scorer (lower user_area) (unique (map zone_row.Area_Name flood_df)) = Some (m, s)"
  shows "\<exists>cur rest. filter (\<lambda>r. zone_row.Area_Name r = m) flood_df = cur # rest"
proof -
  from extractOne_mem[OF ex] have "m \<in> set (map zone_row.Area_Name flood_df)"
    by (simp add: set_unique)
  then show ?thesis using filter_eq_key_Cons by fast
qed

lemma calculate_advanced_evacuation_routes_resolved:
  assumes ex: "extractOne scorer (lower user_area) (unique (map zone_row.Area_Name flood_df)) = Some (m, s)"
    and s: "40 \<le> s"
    and f: "filter (\<lambda>r. zone_row.Area_Name r = m) flood_df = cur # rest"
    and pr: "zone_row.Evacuation_Priority cur \<in> {''Immediate'', ''Urgent'', ''Standard'', ''Safe''}"
  shows "\<exists>rs. advanced_routes_loop (zone_row.Latitude cur) (zone_row.Longitude cur)
             (zone_row.Flood_Risk cur) (zone_row.Evacuation_Priority cur)
             (zone_safe_zones_of m flood_df) = Inr rs \<and>
           calculate_advanced_evacuation_routes scorer user_area flood_df =
             Inr (Some m, Some s, take 5 (sort_key advanced_route.route_score rs))"
proof -
  from pr obtain u where "urgency_multiplier_of (zone_row.Evacuation_Priority cur) = Inr u"
    using urgency_multiplier_of_valid by blast
  from advanced_routes_loop_valid[OF this]
  obtain rs where rs: "advanced_routes_loop (zone_row.Latitude cur) (zone_row.Longitude cur)
             (zone_row.Flood_Risk cur) (zone_row.Evacuation_Priority cur)
             (zone_safe_zones_of m flood_df) = Inr rs"
    by blast
  have "calculate_advanced_evacuation_routes scorer user_area flood_df =
             Inr (Some m, Some s, take 5 (sort_key advanced_route.route_score rs))"
    using ex s f rs by (auto simp: calculate_advanced_evacuation_routes_def Let_def)
  with rs show ?thesis by blast
qed

lemma calculate_advanced_evacuation_routes_KeyError:
  assumes ex: "extractOne scorer (lower user_area) (unique (map zone_row.Area_Name flood_df)) = Some (m, s)"
    and s: "40 \<le> s"
    and f: "filter (\<lambda>r. zone_row.Area_Name r = m) flood_df = cur # rest"
    and pr: "zone_row.Evacuation_Priority cur \<notin> {''Immediate'', ''Urgent'', ''Standard'', ''Safe''}"
  shows "calculate_advanced_evacuation_routes scorer user_area flood_df =
           (if zone_safe_zones_of m flood_df = [] then Inr (Some m, Some s, []) else Inl KeyError)"
proof (cases "zone_safe_zones_of m flood_df = []")
  case True
  with ex s f show ?thesis by (simp add: calculate_advanced_evacuation_routes_def Let_def)
next
  case False
  from advanced_routes_loop_KeyError[OF urgency_multiplier_of_invalid[OF pr] False]
  have "advanced_routes_loop (zone_row.Latitude cur) (zone_row.Longitude cur)
             (zone_row.Flood_Risk cur) (zone_row.Evacuation_Priority cur)
             (zone_safe_zones_of m flood_df) = Inl KeyError" .
  with ex s f False show ?thesis by (simp add: calculate_advanced_evacuation_routes_def Let_def)
qed

text \<open>
  Claim C4. The score that \<open>extractOne\<close> returns is the best score of the query over the
  table (lemma \<open>extractOne_best\<close>). In app.py a best score of 50 or more, so also of exactly
  50, is accepted: the matched name is the start location, the first row of that name gives
  the start coordinates, and the result is the matched name, its score and the three best
  of the routes that the loop computes to the safe zones. A best score below 50 gives the
  no-match result \<open>(None, None, [])\<close>. In mumbai\_evacuation\_complete.py the threshold
  is 40 and the five best routes are returned; there the priority of the start has to be a
  key of the urgency dictionary.
\<close>

theorem threshold_boundary:
  "(extractOne scorer (lower user_area) (unique (map area_row.Areas flood_df)) = Some (m, s) \<longrightarrow>
      (50 \<le> s \<longrightarrow>
         (\<exists>start rest rs.
            filter (\<lambda>r. area_row.Areas r = m) flood_df = start # rest \<and>
            routes_loop (area_row.Latitude start) (area_row.Longitude start)
              (safe_zones_of m flood_df) = Inr rs \<and>
            calculate_evacuation_routes scorer user_area flood_df =
              Inr (Some m, Some s, take 3 (sort_key route.combined_score rs)))) \<and>
      (s < 50 \<longrightarrow>
         calculate_evacuation_routes scorer user_area flood_df = Inr (None, None, []))) \<and>
   (extractOne scorer (lower user_area) (unique (map zone_row.Area_Name zone_df)) = Some (m', s') \<longrightarrow>
      (40 \<le> s' \<longrightarrow>
         (\<exists>cur rest.
            filter (\<lambda>r. zone_row.Area_Name r = m') zone_df = cur # rest \<and>
            (zone_row.Evacuation_Priority cur \<in> {''Immediate'', ''Urgent'', ''Standard'', ''Safe''} \<longrightarrow>
               (\<exists>rs. advanced_routes_loop (zone_row.Latitude cur) (zone_row.Longitude cur)
                       (zone_row.Flood_Risk cur) (zone_row.Evacuation_Priority cur)
                       (zone_safe_zones_of m' zone_df) = Inr rs \<and>
                     calculate_advanced_evacuation_routes scorer user_area zone_df =
                       Inr (Some m', Some s', take 5 (sort_key advanced_route.route_score rs)))))) \<and>
      (s' < 40 \<longrightarrow>
         calculate_advanced_evacuation_routes scorer user_area zone_df = Inr (None, None, [])))"
proof -
  have a1: "\<exists>start rest rs.
            filter (\<lambda>r. area_row.Areas r = m) flood_df = start # rest \<and>
            routes_loop (area_row.Latitude start) (area_row.Longitude start)
              (safe_zones_of m flood_df) = Inr rs \<and>
            calculate_evacuation_routes scorer user_area flood_df =
              Inr (Some m, Some s, take 3 (sort_key route.combined_score rs))"
    if "extractOne scorer (lower user_area) (unique (map area_row.Areas flood_df)) = Some (m, s)"
      and "50 \<le> s"
    using that by (rule calculate_evacuation_routes_resolved)
  have a2: "calculate_evacuation_routes scorer user_area flood_df = Inr (None, None, [])"
    if "extractOne scorer (lower user_area) (unique (map area_row.Areas flood_df)) = Some (m, s)"
      and "s < 50"
    using that by (rule calculate_evacuation_routes_below)
  have b1: "\<exists>cur rest.
            filter (\<lambda>r. zone_row.Area_Name r = m') zone_df = cur # rest \<and>
            (zone_row.Evacuation_Priority cur \<in> {''Immediate'', ''Urgent'', ''Standard'', ''Safe''} \<longrightarrow>
               (\<exists>rs. advanced_routes_loop (zone_row.Latitude cur) (zone_row.Longitude cur)
                       (zone_row.Flood_Risk cur) (zone_row.Evacuation_Priority cur)
                       (zone_safe_zones_of m' zone_df) = Inr rs \<and>
                     calculate_advanced_evacuation_routes scorer user_area zone_df =
                       Inr (Some m', Some s', take 5 (sort_key advanced_route.route_score rs))))"
    if ex: "extractOne scorer (lower user_area) (unique (map zone_row.Area_Name zone_df)) = Some (m', s')"
      and s: "40 \<le> s'"
  proof -
    from calculate_advanced_evacuation_routes_start[OF ex] obtain cur rest where
      f: "filter (\<lambda>r. zone_row.Area_Name r = m') zone_df = cur # rest" by blast
    from calculate_advanced_evacuation_routes_resolved[OF ex s f] f
    show ?thesis by (intro exI[of _ cur] exI[of _ rest] conjI impI)
  qed
  have b2: "calculate_advanced_evacuation_routes scorer user_area zone_df = Inr (None, None, [])"
    if "extractOne scorer (lower user_area) (unique (map zone_row.Area_Name zone_df)) = Some (m', s')"
      and "s' < 40"
    using that by (rule calculate_advanced_evacuation_routes_below)
  from a1 a2 b1 b2 show ?thesis by blast
qed

text \<open>
  A query that scores exactly at the threshold against every name, and one that scores one
  point less: three rows of the table of app.py, and four rows of the extended table.
\<close>

lemma app_rows_constant_match:
  "extractOne (constant_scorer k) (lower ''xyz'') (unique (map area_row.Areas app_rows)) = Some (''colaba'', k)"
  by (simp add: app_rows_def constant_scorer_def)

lemma zone_rows_constant_match:
  "extractOne (constant_scorer k) (lower ''xyz'') (unique (map zone_row.Area_Name zone_rows)) = Some (''colaba'', k)"
  by (simp add: zone_rows_def constant_scorer_def)

lemma advanced_routes_loop_maps:
  "advanced_routes_loop a b c p zs = Inr rs \<Longrightarrow>
     map advanced_route.destination rs = map (\<lambda>z. title (zone_row.Area_Name z)) zs"
  by (induction zs arbitrary: rs) (auto simp: advanced_route_to_def Let_def split: sum.splits)

theorem threshold_boundary_witness:
  "(\<exists>rs. map route.destination rs = [''Fort'', ''Churchgate''] \<and>
         calculate_evacuation_routes (constant_scorer 50) ''xyz'' app_rows =
           Inr (Some ''colaba'', Some 50, take 3 (sort_key route.combined_score rs))) \<and>
   calculate_evacuation_routes (constant_scorer 49) ''xyz'' app_rows = Inr (None, None, []) \<and>
   (\<exists>rs. map advanced_route.destination rs = [''Churchgate'', ''Cotton Green''] \<and>
         calculate_advanced_evacuation_routes (constant_scorer 40) ''xyz'' zone_rows =
           Inr (Some ''colaba'', Some 40, take 5 (sort_key advanced_route.route_score rs))) \<and>
   calculate_advanced_evacuation_routes (constant_scorer 39) ''xyz'' zone_rows = Inr (None, None, [])"
proof -
  have t: "title ''fort'' = ''Fort''" "title ''churchgate'' = ''Churchgate''"
    "title ''cotton green'' = ''Cotton Green''"
    by code_simp+
  note at = threshold_boundary[of "constant_scorer 50" "''xyz''" app_rows "''colaba''" 50
      zone_rows "''colaba''" 50]
  from at app_rows_constant_match[of 50] obtain start rest rs where
    f: "filter (\<lambda>r. area_row.Areas r = ''colaba'') app_rows = start # rest" and
    l: "routes_loop (area_row.Latitude start) (area_row.Longitude start)
          (safe_zones_of ''colaba'' app_rows) = Inr rs" and
    c: "calculate_evacuation_routes (constant_scorer 50) ''xyz'' app_rows =
          Inr (Some ''colaba'', Some 50, take 3 (sort_key route.combined_score rs))"
    by force
  from routes_loop_maps[OF l] have "map route.destination rs = [''Fort'', ''Churchgate'']"
    by (simp add: app_rows_def safe_zones_of_def t)
  with c have 1: "\<exists>rs. map route.destination rs = [''Fort'', ''Churchgate''] \<and>
         calculate_evacuation_routes (constant_scorer 50) ''xyz'' app_rows =
           Inr (Some ''colaba'', Some 50, take 3 (sort_key route.combined_score rs))"
    by (intro exI[of _ rs] conjI)
  from threshold_boundary[of "constant_scorer 49" "''xyz''" app_rows "''colaba''" 49
      zone_rows "''colaba''" 49] app_rows_constant_match[of 49]
  have 2: "calculate_evacuation_routes (constant_scorer 49) ''xyz'' app_rows = Inr (None, None, [])"
    by simp
  note zt = threshold_boundary[of "constant_scorer 40" "''xyz''" app_rows "''colaba''" 40
      zone_rows "''colaba''" 40]
  from zt zone_rows_constant_match[of 40] obtain cur crest where
    zf: "filter (\<lambda>r. zone_row.Area_Name r = ''colaba'') zone_rows = cur # crest" and
    zi: "zone_row.Evacuation_Priority cur \<in> {''Immediate'', ''Urgent'', ''Standard'', ''Safe''} \<longrightarrow>
               (\<exists>rs. advanced_routes_loop (zone_row.Latitude cur) (zone_row.Longitude cur)
                       (zone_row.Flood_Risk cur) (zone_row.Evacuation_Priority cur)
                       (zone_safe_zones_of ''colaba'' zone_rows) = Inr rs \<and>
                     calculate_advanced_evacuation_routes (constant_scorer 40) ''xyz'' zone_rows =
                       Inr (Some ''colaba'', Some 40, take 5 (sort_key advanced_route.route_score rs)))"
    by force
  from zf have "zone_row.Evacuation_Priority cur = ''Immediate''"
    by (auto simp: zone_rows_def)
  with zi obtain zs where
    zl: "advanced_routes_loop (zone_row.Latitude cur) (zone_row.Longitude cur)
                       (zone_row.Flood_Risk cur) (zone_row.Evacuation_Priority cur)
                       (zone_safe_zones_of ''colaba'' zone_rows) = Inr zs" and
    zc: "calculate_advanced_evacuation_routes (constant_scorer 40) ''xyz'' zone_rows =
                       Inr (Some ''colaba'', Some 40, take 5 (sort_key advanced_route.route_score zs))"
    by auto
  from advanced_routes_loop_maps[OF zl]
  have "map advanced_route.destination zs = [''Churchgate'', ''Cotton Green'']"
    by (simp add: zone_rows_def zone_safe_zones_of_def t)
  with zc have 3: "\<exists>rs. map advanced_route.destination rs = [''Churchgate'', ''Cotton Green''] \<and>
         calculate_advanced_evacuation_routes (constant_scorer 40) ''xyz'' zone_rows =
           Inr (Some ''colaba'', Some 40, take 5 (sort_key advanced_route.route_score rs))"
    by (intro exI[of _ zs] conjI)
  from threshold_boundary[of "constant_scorer 39" "''xyz''" app_rows "''colaba''" 39
      zone_rows "''colaba''" 39] zone_rows_constant_match[of 39]
  have 4: "calculate_advanced_evacuation_routes (constant_scorer 39) ''xyz'' zone_rows = Inr (None, None, [])"
    by simp
  from 1 2 3 4 show ?thesis by (intro conjI)
qed

section \<open>The two failure outcomes\<close>

text \<open>
  Claim C5. In app.py and in mumbai\_evacuation\_real.py a best score below the threshold
  gives \<open>(None, None, [])\<close>, and a resolved query with no eligible destination gives the
  matched name and its score with the empty route list. In every result the match is
  \<open>None\<close> exactly when the score is \<open>None\<close>, and then the route list is empty: no result
  has a matched name together with the marker of no match.
\<close>

theorem failure_outcomes_distinct:
  "(extractOne scorer (lower user_area) (unique (map area_row.Areas flood_df)) = Some (m, s) \<longrightarrow>
      (s < 50 \<longrightarrow>
         calculate_evacuation_routes scorer user_area flood_df = Inr (None, None, []) \<and>
         real_calculate_evacuation_routes scorer user_area flood_df = Inr (None, None, [])) \<and>
      (50 \<le> s \<and> safe_zones_of m flood_df = [] \<longrightarrow>
         calculate_evacuation_routes scorer user_area flood_df = Inr (Some m, Some s, []) \<and>
         real_calculate_evacuation_routes scorer user_area flood_df = Inr (Some m, Some s, []))) \<and>
   (calculate_evacuation_routes scorer user_area flood_df = Inr (bm, sc, rts) \<longrightarrow>
      (bm = None \<longleftrightarrow> sc = None) \<and> (bm = None \<longrightarrow> rts = [])) \<and>
   (real_calculate_evacuation_routes scorer user_area flood_df = Inr (bm', sc', rts') \<longrightarrow>
      (bm' = None \<longleftrightarrow> sc' = None) \<and> (bm' = None \<longrightarrow> rts' = []))"
proof -
  have low: "calculate_evacuation_routes scorer user_area flood_df = Inr (None, None, []) \<and>
         real_calculate_evacuation_routes scorer user_area flood_df = Inr (None, None, [])"
    if "extractOne scorer (lower user_area) (unique (map area_row.Areas flood_df)) = Some (m, s)"
      and "s < 50"
    using that
    by (simp add: calculate_evacuation_routes_below real_calculate_evacuation_routes_below)
  have none: "calculate_evacuation_routes scorer user_area flood_df = Inr (Some m, Some s, []) \<and>
         real_calculate_evacuation_routes scorer user_area flood_df = Inr (Some m, Some s, [])"
    if ex: "extractOne scorer (lower user_area) (unique (map area_row.Areas flood_df)) = Some (m, s)"
      and a: "50 \<le> s \<and> safe_zones_of m flood_df = []"
  proof
    from calculate_evacuation_routes_resolved[OF ex] a
    show "calculate_evacuation_routes scorer user_area flood_df = Inr (Some m, Some s, [])"
      by auto
    from real_calculate_evacuation_routes_resolved[OF ex] a
    show "real_calculate_evacuation_routes scorer user_area flood_df = Inr (Some m, Some s, [])"
      by auto
  qed
  have app: "(bm = None \<longleftrightarrow> sc = None) \<and> (bm = None \<longrightarrow> rts = [])"
    if "calculate_evacuation_routes scorer user_area flood_df = Inr (bm, sc, rts)"
    using calculate_evacuation_routes_cases[OF that] by auto
  have real: "(bm' = None \<longleftrightarrow> sc' = None) \<and> (bm' = None \<longrightarrow> rts' = [])"
    if "real_calculate_evacuation_routes scorer user_area flood_df = Inr (bm', sc', rts')"
    using real_calculate_evacuation_routes_cases[OF that] by auto
  from low none app real show ?thesis by blast
qed

theorem failure_outcomes_distinct_witness:
  "calculate_evacuation_routes (constant_scorer 49) ''xyz'' colaba_only = Inr (None, None, []) \<and>
   real_calculate_evacuation_routes (constant_scorer 49) ''xyz'' colaba_only = Inr (None, None, []) \<and>
   calculate_evacuation_routes exact_scorer ''Colaba'' colaba_only =
     Inr (Some ''colaba'', Some 100, []) \<and>
   real_calculate_evacuation_routes exact_scorer ''Colaba'' colaba_only =
     Inr (Some ''colaba'', Some 100, [])"
proof -
  have l: "lower ''Colaba'' = ''colaba''" by code_simp
  have 1: "extractOne (constant_scorer 49) (lower ''xyz'') (unique (map area_row.Areas colaba_only)) =
             Some (''colaba'', 49)"
    by (simp add: colaba_only_def constant_scorer_def)
  have 2: "extractOne exact_scorer (lower ''Colaba'') (unique (map area_row.Areas colaba_only)) =
             Some (''colaba'', 100)"
    by (simp add: colaba_only_def l exact_scorer_def)
  have 3: "safe_zones_of ''colaba'' colaba_only = []"
    by (simp add: colaba_only_def safe_zones_of_def)
  from failure_outcomes_distinct[of "constant_scorer 49" "''xyz''" colaba_only "''colaba''" 49] 1
    failure_outcomes_distinct[of exact_scorer "''Colaba''" colaba_only "''colaba''" 100] 2 3
  show ?thesis by simp
qed

section \<open>The Haversine distance and the route scores\<close>

text \<open>
  The argument of \<open>sqrt\<close> and \<open>asin\<close> in the Haversine block lies between 0 and 1, so
  that neither raises a domain error: \<open>p\<close> and \<open>q\<close> are the two latitudes in radians and
  \<open>l\<close> is the difference of the longitudes.
\<close>

lemma scaled_cos_bounds:
  fixes w x :: real
  assumes "0 \<le> w"
  shows "w * cos x \<le> w" and "- w \<le> w * cos x"
proof -
  from assms cos_le_one[of x] show "w * cos x \<le> w" by (rule mult_left_le[rotated])
  from assms cos_ge_minus_one[of x] have "w * (- 1) \<le> w * cos x" by (intro mult_left_mono)
  then show "- w \<le> w * cos x" by simp
qed

lemma haversine_a_range:
  fixes p q l :: real
  defines "a \<equiv> (sin ((q - p) / 2))\<^sup>2 + cos p * cos q * (sin (l / 2))\<^sup>2"
  shows "0 \<le> a \<and> a \<le> 1"
proof -
  have s: "(sin (x / 2))\<^sup>2 = (1 - cos x) / 2" for x :: real
    using cos_double_sin[of "x / 2"] by simp
  have cc: "cos p * cos q = (cos (q - p) + cos (q + p)) / 2"
    using cos_times_cos[of q p] by (simp add: mult.commute)
  define h where "h = (1 - cos l) / 2"
  define A where "A = cos (q - p)"
  define B where "B = cos (q + p)"
  have h: "0 \<le> h" "0 \<le> 1 - h"
    using cos_le_one[of l] cos_ge_minus_one[of l] by (simp_all add: h_def)
  have "a = (1 - A) / 2 + (A + B) / 2 * h"
    unfolding a_def s cc h_def A_def B_def ..
  also have "\<dots> = (1 - (1 - h) * A + h * B) / 2"
    by (simp add: field_simps)
  finally have a: "a = (1 - (1 - h) * A + h * B) / 2" .
  from scaled_cos_bounds[OF h(2), of "q - p"]
  have 1: "(1 - h) * A \<le> 1 - h" "- (1 - h) \<le> (1 - h) * A" by (simp_all only: A_def)
  from scaled_cos_bounds[OF h(1), of "q + p"]
  have 2: "h * B \<le> h" "- h \<le> h * B" by (simp_all only: B_def)
  define X where "X = (1 - h) * A"
  define Y where "Y = h * B"
  from 1 2 have "X \<le> 1 - h" "- (1 - h) \<le> X" "Y \<le> h" "- h \<le> Y"
    by (simp_all only: X_def Y_def)
  moreover have "a = (1 - X + Y) / 2" by (simp only: a X_def Y_def)
  ultimately show ?thesis by simp
qed

lemma sin_half_diff_sq:
  fixes x y k :: real
  shows "(sin ((x - y) / k))\<^sup>2 = (sin ((y - x) / k))\<^sup>2"
proof -
  have "x - y = - (y - x)" by simp
  then have "(x - y) / k = - ((y - x) / k)" by (simp only: minus_divide_left)
  then have "sin ((x - y) / k) = - sin ((y - x) / k)" by (simp only: sin_minus)
  then show ?thesis by simp
qed

lemma haversine_km_sym: "haversine_km lat1 lon1 lat2 lon2 = haversine_km lat2 lon2 lat1 lon1"
  unfolding haversine_km_def Let_def
  by (simp only: sin_half_diff_sq[of "radians lat2" "radians lat1"]
        sin_half_diff_sq[of "radians lon2" "radians lon1"] mult.commute[of "cos (radians lat1)"])

lemma haversine_km_self: "haversine_km lat1 lon1 lat1 lon1 = 0"
  by (simp add: haversine_km_def)

lemma haversine_m_sym: "haversine_m lon1 lat1 lon2 lat2 = haversine_m lon2 lat2 lon1 lat1"
  unfolding haversine_m_def Let_def
  by (simp only: sin_half_diff_sq[of "radians lat2" "radians lat1"]
        sin_half_diff_sq[of "radians lon2" "radians lon1"] mult.commute[of "cos (radians lat1)"])

lemma haversine_m_self: "haversine_m lon1 lat1 lon1 lat1 = 0"
  by (simp add: haversine_m_def arctan2_def)

text \<open>
  Claim C7. The Haversine distance of app.py (in kilometres, written in line in the loop) and
  \<open>haversine_m\<close> of tload.py (in metres) are symmetric in the two points, and the distance
  from a point to itself is 0.
\<close>

theorem haversine_symmetric_zero:
  "haversine_km lat1 lon1 lat2 lon2 = haversine_km lat2 lon2 lat1 lon1 \<and>
   haversine_km lat1 lon1 lat1 lon1 = 0 \<and>
   haversine_m lon1 lat1 lon2 lat2 = haversine_m lon2 lat2 lon1 lat1 \<and>
   haversine_m lon1 lat1 lon1 lat1 = 0"
  using haversine_km_sym haversine_km_self haversine_m_sym haversine_m_self by (intro conjI)

text \<open>
  The three composite scores, as the loop bodies compute them: \<open>combined_score\<close> of
  app.py, \<open>route_score\<close> of streamlit\_app.py and \<open>route_score\<close> of
  mumbai\_evacuation\_complete.py.
\<close>

lemma urgency_multiplier_positive: "urgency_multiplier_of priority = Inr u \<Longrightarrow> 0 < u"
  by (auto simp: urgency_multiplier_of_def split: if_splits)

lemma urgency_multiplier_ge_one: "urgency_multiplier_of priority = Inr u \<Longrightarrow> 1 \<le> u"
  by (auto simp: urgency_multiplier_of_def split: if_splits)

lemma combined_score_of_distance: "d1 < d2 \<Longrightarrow> combined_score_of k d1 < combined_score_of k d2"
  by (simp add: combined_score_of_def)

lemma combined_score_of_safety:
  "int c - int k2 < int c - int k1 \<Longrightarrow> combined_score_of k1 d < combined_score_of k2 d"
  by (simp add: combined_score_of_def)

lemma route_score_of_distance: "d1 < d2 \<Longrightarrow> route_score_of cur s d1 < route_score_of cur s d2"
  by (simp add: route_score_of_def Let_def)

lemma route_score_of_safety:
  "cur - s2 < cur - s1 \<Longrightarrow> route_score_of cur s1 d < route_score_of cur s2 d"
  by (simp add: route_score_of_def Let_def)

lemma route_score_of_safety_step:
  assumes "cur - s2 < cur - s1"
  shows "route_score_of cur s1 d + 2 \<le> route_score_of cur s2 d"
proof -
  from assms have "s1 + 1 \<le> s2" by simp
  then have "(of_int s1 :: real) + 1 \<le> of_int s2" by linarith
  then show ?thesis by (simp add: route_score_of_def Let_def)
qed

lemma advanced_route_score_of_distance:
  "0 < u \<Longrightarrow> d1 < d2 \<Longrightarrow>
     advanced_route_score_of cur s d1 density u < advanced_route_score_of cur s d2 density u"
  by (simp add: advanced_route_score_of_def Let_def)

lemma advanced_route_score_of_safety:
  "0 < u \<Longrightarrow> cur - s2 < cur - s1 \<Longrightarrow>
     advanced_route_score_of cur s1 d density u < advanced_route_score_of cur s2 d density u"
  by (simp add: advanced_route_score_of_def Let_def)

lemma advanced_route_score_of_safety_step:
  assumes u: "1 \<le> u" and "cur - s2 < cur - s1"
  shows "advanced_route_score_of cur s1 d density u + 2 \<le> advanced_route_score_of cur s2 d density u"
proof -
  from assms have "s1 + 1 \<le> s2" by simp
  then have "(of_int s1 :: real) + 1 \<le> of_int s2" by linarith
  then have "2 \<le> (of_int s2 - of_int s1) * (2 :: real)" by simp
  also have "\<dots> \<le> ((of_int s2 - of_int s1) * 2) * u"
    using u \<open>(of_int s1 :: real) + 1 \<le> of_int s2\<close> by (simp add: mult_le_cancel_left1)
  finally have "2 \<le> ((of_int s2 - of_int s1) * 2) * u" .
  moreover have "advanced_route_score_of cur s2 d density u - advanced_route_score_of cur s1 d density u
      = ((of_int s2 - of_int s1) * 2) * u"
    by (simp add: advanced_route_score_of_def Let_def algebra_simps)
  ultimately show ?thesis by linarith
qed

lemma advanced_route_score_of_density:
  "0 < u \<Longrightarrow> density1 < density2 \<Longrightarrow>
     advanced_route_score_of cur s d density1 u < advanced_route_score_of cur s d density2 u"
  by (simp add: advanced_route_score_of_def Let_def)

text \<open>
  Rounding keeps the order weakly, and strictly where the two values are more than one unit
  of the last kept decimal apart.
\<close>

lemma round_half_even_cases:
  "round_half_even y = \<lfloor>y\<rfloor> \<or> round_half_even y = \<lfloor>y\<rfloor> + 1"
  by (simp add: round_half_even_def Let_def)

lemma round_half_even_mono:
  assumes "x \<le> y"
  shows "round_half_even x \<le> round_half_even y"
proof (cases "\<lfloor>x\<rfloor> < \<lfloor>y\<rfloor>")
  case True
  from round_half_even_cases[of x] have "round_half_even x \<le> \<lfloor>x\<rfloor> + 1" by auto
  moreover from round_half_even_cases[of y] have "\<lfloor>y\<rfloor> \<le> round_half_even y" by auto
  ultimately show ?thesis using True by linarith
next
  case False
  with assms have eq: "\<lfloor>x\<rfloor> = \<lfloor>y\<rfloor>" using floor_mono[of x y] by linarith
  then have "x - of_int \<lfloor>x\<rfloor> \<le> y - of_int \<lfloor>y\<rfloor>" using assms by simp
  then show ?thesis
    unfolding round_half_even_def Let_def eq by auto
qed

lemma round_half_even_near:
  "y - 1 / 2 \<le> of_int (round_half_even y) \<and> of_int (round_half_even y) \<le> y + 1 / 2"
proof -
  define f where "f = \<lfloor>y\<rfloor>"
  have b: "of_int f \<le> y" "y < of_int f + 1" unfolding f_def by linarith+
  have r: "round_half_even y =
             (if y - of_int f < 1 / 2 then f
              else if 1 / 2 < y - of_int f then f + 1 else if even f then f else f + 1)"
    by (simp add: round_half_even_def Let_def f_def)
  consider "y - of_int f < 1 / 2" | "1 / 2 < y - of_int f" | "y - of_int f = 1 / 2"
    by linarith
  then show ?thesis
  proof cases
    case 1
    with r have "round_half_even y = f" by simp
    with b 1 show ?thesis by simp
  next
    case 2
    with r have "round_half_even y = f + 1" by simp
    with b 2 show ?thesis by simp
  next
    case 3
    with r have "round_half_even y = f \<or> round_half_even y = f + 1" by simp
    with b 3 show ?thesis by auto
  qed
qed

lemma round_half_even_strict:
  assumes "x + 1 < y"
  shows "round_half_even x < round_half_even y"
proof -
  from round_half_even_near[of x] have "of_int (round_half_even x) \<le> x + 1 / 2" by simp
  moreover from round_half_even_near[of y] have "y - 1 / 2 \<le> of_int (round_half_even y)" by simp
  ultimately have "(of_int (round_half_even x) :: real) < of_int (round_half_even y)"
    using assms by linarith
  then show ?thesis by simp
qed

lemma py_round_mono: "x \<le> y \<Longrightarrow> py_round x n \<le> py_round y n"
proof -
  assume "x \<le> y"
  then have "x * 10 ^ n \<le> y * 10 ^ n" by simp
  then have "round_half_even (x * 10 ^ n) \<le> round_half_even (y * 10 ^ n)"
    by (rule round_half_even_mono)
  then have "(of_int (round_half_even (x * 10 ^ n)) :: real) \<le> of_int (round_half_even (y * 10 ^ n))"
    by simp
  then show ?thesis unfolding py_round_def by (simp add: divide_right_mono)
qed

lemma py_round_strict:
  assumes "x + 1 / 10 ^ n < y"
  shows "py_round x n < py_round y n"
proof -
  have p: "(0::real) < 10 ^ n" by simp
  from assms have "(x + 1 / 10 ^ n) * 10 ^ n < y * 10 ^ n"
    using p by (simp only: mult_strict_right_mono)
  then have "x * 10 ^ n + 1 < y * 10 ^ n" by (simp add: algebra_simps)
  then have "round_half_even (x * 10 ^ n) < round_half_even (y * 10 ^ n)"
    by (rule round_half_even_strict)
  then have "(of_int (round_half_even (x * 10 ^ n)) :: real) < of_int (round_half_even (y * 10 ^ n))"
    by simp
  then show ?thesis unfolding py_round_def using p by (simp add: divide_strict_right_mono)
qed

lemma py_round_step:
  assumes "x + 2 \<le> y"
  shows "py_round x 2 < py_round y 2"
proof (rule py_round_strict)
  have "(1::real) / 10 ^ 2 < 2" by simp
  with assms show "x + 1 / 10 ^ 2 < y" by linarith
qed

text \<open>
  The score that a route carries, and by which the list of routes is sorted: app.py stores
  \<open>combined_score\<close> as computed (line 158); streamlit\_app.py and
  mumbai\_evacuation\_complete.py store \<open>round(route_score, 2)\<close> (lines 377 and 393).
\<close>

lemma route_to_combined_score:
  "route_to a b z = Inr r \<Longrightarrow>
     \<exists>k. risk_score_of (area_row.Flood_Risk_Level z) = Inr k \<and>
         route.combined_score r =
           combined_score_of k (haversine_km a b (area_row.Latitude z) (area_row.Longitude z))"
  by (auto simp: route_to_def Let_def split: sum.splits)

lemma zone_route_to_route_score:
  "zone_route.route_score (zone_route_to a b current_risk current_priority dest) =
     py_round (route_score_of (risk_scores_get current_risk) (risk_scores_get (zone_row.Flood_Risk dest))
                 (haversine_km a b (zone_row.Latitude dest) (zone_row.Longitude dest))) 2"
  by (simp add: zone_route_to_def Let_def)

lemma advanced_route_to_route_score:
  "advanced_route_to a b current_risk current_priority dest = Inr r \<Longrightarrow>
     \<exists>u. urgency_multiplier_of current_priority = Inr u \<and>
         advanced_route.route_score r =
           py_round (advanced_route_score_of (risk_scores_get current_risk)
                       (risk_scores_get (zone_row.Flood_Risk dest))
                       (haversine_km a b (zone_row.Latitude dest) (zone_row.Longitude dest))
                       (zone_row.Population_Density dest) u) 2"
  by (auto simp: advanced_route_to_def Let_def split: sum.splits)

text \<open>
  Claim C6, as amended. With everything else equal, the score that the loop body computes
  is strictly greater for a greater distance, strictly smaller for a greater safety
  improvement (the severity of the start minus the severity of the destination) and, in
  mumbai\_evacuation\_complete.py, strictly greater for a greater population density of the
  destination. app.py stores and ranks by that value. streamlit\_app.py and
  mumbai\_evacuation\_complete.py store and rank by the value rounded to two decimals:
  the stored score does not decrease when the distance or the density grows, and it is
  still strictly smaller for a greater safety improvement, one step of which moves the
  score by 2 or more.
\<close>

theorem sign_convention:
  "(d1 < d2 \<longrightarrow> combined_score_of k d1 < combined_score_of k d2) \<and>
   (int c - int k2 < int c - int k1 \<longrightarrow> combined_score_of k1 d < combined_score_of k2 d) \<and>
   (d1 < d2 \<longrightarrow>
      route_score_of cur s d1 < route_score_of cur s d2 \<and>
      py_round (route_score_of cur s d1) 2 \<le> py_round (route_score_of cur s d2) 2) \<and>
   (cur - s2 < cur - s1 \<longrightarrow>
      route_score_of cur s1 d < route_score_of cur s2 d \<and>
      py_round (route_score_of cur s1 d) 2 < py_round (route_score_of cur s2 d) 2) \<and>
   (urgency_multiplier_of priority = Inr u \<longrightarrow>
      (d1 < d2 \<longrightarrow>
         advanced_route_score_of cur s d1 density u < advanced_route_score_of cur s d2 density u \<and>
         py_round (advanced_route_score_of cur s d1 density u) 2
           \<le> py_round (advanced_route_score_of cur s d2 density u) 2) \<and>
      (cur - s2 < cur - s1 \<longrightarrow>
         advanced_route_score_of cur s1 d density u < advanced_route_score_of cur s2 d density u \<and>
         py_round (advanced_route_score_of cur s1 d density u) 2
           < py_round (advanced_route_score_of cur s2 d density u) 2) \<and>
      (density1 < density2 \<longrightarrow>
         advanced_route_score_of cur s d density1 u < advanced_route_score_of cur s d density2 u \<and>
         py_round (advanced_route_score_of cur s d density1 u) 2
           \<le> py_round (advanced_route_score_of cur s d density2 u) 2))"
proof -
  have 1: "combined_score_of k d1 < combined_score_of k d2" if "d1 < d2"
    using that by (rule combined_score_of_distance)
  have 2: "combined_score_of k1 d < combined_score_of k2 d" if "int c - int k2 < int c - int k1"
    using that by (rule combined_score_of_safety)
  have 3: "route_score_of cur s d1 < route_score_of cur s d2 \<and>
      py_round (route_score_of cur s d1) 2 \<le> py_round (route_score_of cur s d2) 2" if "d1 < d2"
  proof -
    from that have l: "route_score_of cur s d1 < route_score_of cur s d2"
      by (rule route_score_of_distance)
    then have "route_score_of cur s d1 \<le> route_score_of cur s d2" by simp
    then have "py_round (route_score_of cur s d1) 2 \<le> py_round (route_score_of cur s d2) 2"
      by (rule py_round_mono)
    with l show ?thesis by (rule conjI)
  qed
  have 4: "route_score_of cur s1 d < route_score_of cur s2 d \<and>
      py_round (route_score_of cur s1 d) 2 < py_round (route_score_of cur s2 d) 2"
    if "cur - s2 < cur - s1"
  proof -
    from that have l: "route_score_of cur s1 d < route_score_of cur s2 d"
      by (rule route_score_of_safety)
    from that have "route_score_of cur s1 d + 2 \<le> route_score_of cur s2 d"
      by (rule route_score_of_safety_step)
    then have "py_round (route_score_of cur s1 d) 2 < py_round (route_score_of cur s2 d) 2"
      by (rule py_round_step)
    with l show ?thesis by (rule conjI)
  qed
  have 5: "advanced_route_score_of cur s d1 density u < advanced_route_score_of cur s d2 density u \<and>
         py_round (advanced_route_score_of cur s d1 density u) 2
           \<le> py_round (advanced_route_score_of cur s d2 density u) 2"
    if u: "urgency_multiplier_of priority = Inr u" and d: "d1 < d2"
  proof -
    from urgency_multiplier_positive[OF u] d
    have l: "advanced_route_score_of cur s d1 density u < advanced_route_score_of cur s d2 density u"
      by (rule advanced_route_score_of_distance)
    then have "advanced_route_score_of cur s d1 density u \<le> advanced_route_score_of cur s d2 density u"
      by simp
    then have "py_round (advanced_route_score_of cur s d1 density u) 2
           \<le> py_round (advanced_route_score_of cur s d2 density u) 2"
      by (rule py_round_mono)
    with l show ?thesis by (rule conjI)
  qed
  have 6: "advanced_route_score_of cur s1 d density u < advanced_route_score_of cur s2 d density u \<and>
         py_round (advanced_route_score_of cur s1 d density u) 2
           < py_round (advanced_route_score_of cur s2 d density u) 2"
    if u: "urgency_multiplier_of priority = Inr u" and d: "cur - s2 < cur - s1"
  proof -
    from urgency_multiplier_positive[OF u] d
    have l: "advanced_route_score_of cur s1 d density u < advanced_route_score_of cur s2 d density u"
      by (rule advanced_route_score_of_safety)
    from urgency_multiplier_ge_one[OF u] d
    have "advanced_route_score_of cur s1 d density u + 2 \<le> advanced_route_score_of cur s2 d density u"
      by (rule advanced_route_score_of_safety_step)
    then have "py_round (advanced_route_score_of cur s1 d density u) 2
           < py_round (advanced_route_score_of cur s2 d density u) 2"
      by (rule py_round_step)
    with l show ?thesis by (rule conjI)
  qed
  have 7: "advanced_route_score_of cur s d density1 u < advanced_route_score_of cur s d density2 u \<and>
         py_round (advanced_route_score_of cur s d density1 u) 2
           \<le> py_round (advanced_route_score_of cur s d density2 u) 2"
    if u: "urgency_multiplier_of priority = Inr u" and d: "density1 < density2"
  proof -
    from urgency_multiplier_positive[OF u] d
    have l: "advanced_route_score_of cur s d density1 u < advanced_route_score_of cur s d density2 u"
      by (rule advanced_route_score_of_density)
    then have "advanced_route_score_of cur s d density1 u \<le> advanced_route_score_of cur s d density2 u"
      by simp
    then have "py_round (advanced_route_score_of cur s d density1 u) 2
           \<le> py_round (advanced_route_score_of cur s d density2 u) 2"
      by (rule py_round_mono)
    with l show ?thesis by (rule conjI)
  qed
  from 1 2 3 4 5 6 7 show ?thesis by blast
qed

theorem sign_convention_witness:
  "combined_score_of 1 2 < combined_score_of 1 3 \<and>
   combined_score_of 1 2 < combined_score_of 2 2 \<and>
   route_score_of 3 1 2 < route_score_of 3 1 3 \<and>
   py_round (route_score_of 3 1 2) 2 \<le> py_round (route_score_of 3 1 3) 2 \<and>
   route_score_of 3 1 2 < route_score_of 3 2 2 \<and>
   py_round (route_score_of 3 1 2) 2 < py_round (route_score_of 3 2 2) 2 \<and>
   advanced_route_score_of 3 1 2 20000 3 < advanced_route_score_of 3 1 3 20000 3 \<and>
   py_round (advanced_route_score_of 3 1 2 20000 3) 2
     \<le> py_round (advanced_route_score_of 3 1 3 20000 3) 2 \<and>
   advanced_route_score_of 3 1 2 20000 3 < advanced_route_score_of 3 2 2 20000 3 \<and>
   py_round (advanced_route_score_of 3 1 2 20000 3) 2
     < py_round (advanced_route_score_of 3 2 2 20000 3) 2 \<and>
   advanced_route_score_of 3 1 2 20000 3 < advanced_route_score_of 3 1 2 30000 3 \<and>
   py_round (advanced_route_score_of 3 1 2 20000 3) 2
     \<le> py_round (advanced_route_score_of 3 1 2 30000 3) 2"
proof -
  have p: "urgency_multiplier_of ''Immediate'' = Inr 3"
    by (simp add: urgency_multiplier_of_def)
  have h: "(2::real) < 3" "int 3 - int 2 < int 3 - int 1" "(3::int) - 2 < 3 - 1"
    "(20000::int) < 30000"
    by simp_all
  note t = sign_convention[where ?d1.0 = 2 and ?d2.0 = 3 and d = 2 and k = 1 and ?k1.0 = 1
      and ?k2.0 = 2 and c = 3 and cur = 3 and s = 1 and ?s1.0 = 1 and ?s2.0 = 2
      and priority = "''Immediate''" and u = 3 and density = 20000 and ?density1.0 = 20000
      and ?density2.0 = 30000]
  from t h p show ?thesis by blast
qed

text \<open>
  Claim C6 as stated fails for the scores of streamlit\_app.py and
  mumbai\_evacuation\_complete.py. Of two candidates of severity 1 seen from a start of
  severity 3, one at 2 km and one at 2.01 km, both get the route score -3.4 in
  streamlit\_app.py. Of two such candidates at 2 km, one with 20000 and one with 20100
  inhabitants per square kilometre, both get the route score -3.3 in
  mumbai\_evacuation\_complete.py, for a start of priority \<open>Safe\<close>.
\<close>

theorem rounded_scores_tie:
  "(2 :: real) < 2.01 \<and>
   route_score_of 3 1 2 < route_score_of 3 1 2.01 \<and>
   py_round (route_score_of 3 1 2) 2 = - 3.4 \<and>
   py_round (route_score_of 3 1 2.01) 2 = - 3.4 \<and>
   urgency_multiplier_of ''Safe'' = Inr 1 \<and>
   (20000 :: int) < 20100 \<and>
   advanced_route_score_of 3 1 2 20000 1 < advanced_route_score_of 3 1 2 20100 1 \<and>
   py_round (advanced_route_score_of 3 1 2 20000 1) 2 = - 3.3 \<and>
   py_round (advanced_route_score_of 3 1 2 20100 1) 2 = - 3.3"
  by (simp add: py_round_def round_half_even_def route_score_of_def advanced_route_score_of_def
      urgency_multiplier_of_def Let_def)

section \<open>Blank queries\<close>

text \<open>A string strips to the empty string exactly when all its characters are white space.\<close>

lemma strip_blank: "\<forall>c \<in> set s. isspace c \<Longrightarrow> strip s = []"
proof -
  assume a: "\<forall>c \<in> set s. isspace c"
  then have d: "dropWhile isspace s = []" by (simp add: dropWhile_eq_Nil_conv)
  show ?thesis unfolding strip_def d by simp
qed

lemma strip_Nil_iff: "strip s = [] \<longleftrightarrow> (\<forall>c \<in> set s. isspace c)"
proof
  assume "strip s = []"
  then have "dropWhile isspace (rev (dropWhile isspace s)) = []" by (simp add: strip_def)
  then have "\<forall>c \<in> set (rev (dropWhile isspace s)). isspace c" by (simp add: dropWhile_eq_Nil_conv)
  then have "\<forall>c \<in> set (dropWhile isspace s). isspace c" by simp
  then have "dropWhile isspace s = []"
    by (metis hd_dropWhile hd_in_set)
  then show "\<forall>c \<in> set s. isspace c" by (simp add: dropWhile_eq_Nil_conv)
qed (rule strip_blank)

lemma isspace_code_points:
  "isspace c \<longleftrightarrow> (of_char c :: nat) \<in> {9, 10, 11, 12, 13, 28, 29, 30, 31, 32, 133, 160}"
  by (simp add: isspace_def)

lemma strip_latin1_spaces:
  "strip [char_of (133 :: nat)] = []" "strip [char_of (160 :: nat), CHR '' ''] = []"
  by (simp_all add: strip_def isspace_def)


text \<open>
  The result of \<open>extractOne\<close>, and with it the result of the route function, is a function
  of the values of the metric on the listed evaluations.
\<close>

lemma extractOne_cong_calls:
  assumes "\<forall>p \<in> set (extractOne_calls query choices). f (fst p) (snd p) = g (fst p) (snd p)"
  shows "extractOne f query choices = extractOne g query choices"
  using assms by (induction choices) (auto simp: extractOne_calls_def split: option.splits)

lemma calculate_evacuation_routes_cong_calls:
  assumes "\<forall>p \<in> set (calculate_evacuation_routes_calls user_area flood_df).
             f (fst p) (snd p) = g (fst p) (snd p)"
  shows "calculate_evacuation_routes f user_area flood_df = calculate_evacuation_routes g user_area flood_df"
proof -
  from assms have "extractOne f (lower user_area) (unique (map area_row.Areas flood_df)) =
      extractOne g (lower user_area) (unique (map area_row.Areas flood_df))"
    unfolding calculate_evacuation_routes_calls_def Let_def by (rule extractOne_cong_calls)
  then show ?thesis by (simp add: calculate_evacuation_routes_def)
qed





text \<open>A run of the route finder of tload.py on the table of two regions.\<close>

lemma two_regions_run:
  "find_two_safest_routes_for_user exact_ratio two_nodes two_regions ''Colaba'' =
     Inr (Some ''colaba'', 100,
          [\<lparr> dest_region = ''matunga'', dest_region_idx = 0, dest_node = 1, path = [2, 1],
             distance_km = 13.4, eta_min = 32.16 \<rparr>])"
proof -
  have l: "strip (lower ''Colaba'') = ''colaba''" "lower ''low'' = ''low''"
    "lower ''high'' = ''high''"
    by code_simp+
  show ?thesis
    by (simp add: find_two_safest_routes_for_user_def extract_best_match_def l two_regions_def
        two_nodes_def exact_ratio_def py_int_def Let_def List.map_filter_simps route_length_m_def
        shorter_def upt_rec[of 0] upt_rec[of 1] upt_rec[of 2])
qed



section \<open>The start location among the destinations\<close>

text \<open>
  In app.py the rows with the name of the start are removed from the candidates, so that no
  returned route leads to the start.
\<close>

lemma app_self_exclusion:
  assumes "calculate_evacuation_routes scorer user_area flood_df = Inr (Some m, sc, rts)"
    and "r \<in> set rts"
  shows "\<exists>z \<in> set flood_df. area_row.Areas z \<noteq> m \<and> route.destination r = title (area_row.Areas z)"
proof -
  from calculate_evacuation_routes_sources[OF assms] obtain start z where
    "start \<in> set flood_df" "z \<in> set flood_df" "area_row.Areas z \<noteq> m"
    "route_to (area_row.Latitude start) (area_row.Longitude start) z = Inr r"
    by blast
  with route_to_fields[of "area_row.Latitude start" "area_row.Longitude start" z r]
  show ?thesis by blast
qed

lemma sample_data_match:
  "extractOne exact_scorer (lower ''Fort'') (unique (map simple_row.Areas sample_data)) =
     Some (''fort'', 100)"
  by code_simp

lemma sample_data_safe:
  "safe_areas_of sample_data =
     [\<lparr> Ward_Code = ''Ward B'', Areas = ''fort'', Latitude = 19.0509,
        Longitude = 72.7615, Flood_risk_level = ''Low'' \<rparr>]"
proof -
  have "lower ''Moderate'' = ''moderate''" "lower ''Low'' = ''low''" by code_simp+
  then show ?thesis by (simp add: safe_areas_of_def sample_data_def)
qed

text \<open>
  Claim C2 fails in evacuation\_app\_simple.py, which does not remove the start from the
  safe areas. On the table that the file itself builds, the query \<open>Fort\<close> resolves to the
  only low-risk area, and the one route returned leads from Fort to Fort, at distance 0.
\<close>

theorem simple_start_is_destination:
  "calculate_simple_routes exact_scorer ''Fort'' sample_data =
     Inr (Some ''fort'', Some 100,
          [\<lparr> simple_route.destination = ''Fort'', destination_lat = 19.0509,
             destination_lon = 72.7615, distance_km = 0, eta_min = 0,
             risk_level = ''Low'' \<rparr>])"
proof -
  have t: "title ''fort'' = ''Fort''" by code_simp
  have f: "filter (\<lambda>r. simple_row.Areas r = ''fort'') sample_data =
     [\<lparr> Ward_Code = ''Ward B'', Areas = ''fort'', Latitude = 19.0509,
        Longitude = 72.7615, Flood_risk_level = ''Low'' \<rparr>]"
    by (simp add: sample_data_def)
  from calculate_simple_routes_resolved[OF sample_data_match]
  show ?thesis
    by (simp add: f sample_data_safe simple_route_to_def Let_def t)
qed

section \<open>The regions of the edges\<close>

lemma risk_priority_get_order:
  "risk_priority_get ''low'' < risk_priority_get ''moderate'' \<and>
   risk_priority_get ''moderate'' < risk_priority_get ''high'' \<and>
   risk_priority_get ''high'' < risk_priority_get ''severe'' \<and>
   risk_priority_get ''severe'' < risk_priority_get ''extreme''"
  by (simp add: risk_priority_get_def)

text \<open>
  In warp.py an edge with two assigned end points takes the region of one of them, of the
  greater risk priority of the two; with one assigned end point it takes that region.
\<close>

lemma edge_region_both:
  assumes "node_to_region u = Some u_region" and "node_to_region v = Some v_region"
  shows "\<exists>r. edge_region node_to_region u v = Some r \<and> r \<in> {u_region, v_region} \<and>
           risk_priority_get (flood_risk_level r) =
             max (risk_priority_get (flood_risk_level u_region))
                 (risk_priority_get (flood_risk_level v_region))"
  using assms by (auto simp: edge_region_def Let_def max_def)

lemma edge_region_one:
  "node_to_region u = Some u_region \<Longrightarrow> node_to_region v = None \<Longrightarrow>
     edge_region node_to_region u v = Some u_region"
  "node_to_region u = None \<Longrightarrow> node_to_region v = Some v_region \<Longrightarrow>
     edge_region node_to_region u v = Some v_region"
  "node_to_region u = None \<Longrightarrow> node_to_region v = None \<Longrightarrow>
     edge_region node_to_region u v = None"
  by (simp_all add: edge_region_def)

lemma edges_loop_other:
  "(u, v, key) \<notin> set es \<Longrightarrow> edges_loop n2r es m (u, v, key) = m (u, v, key)"
  by (induction es arbitrary: m) (auto split: option.splits if_splits)

lemma edges_loop_invariant:
  assumes "(u, v, key) \<in> set es"
    and "m (u, v, key) = None \<or> m (u, v, key) = edge_region n2r u v"
  shows "edges_loop n2r es m (u, v, key) = edge_region n2r u v"
  using assms
proof (induction es arbitrary: m)
  case Nil
  then show ?case by simp
next
  case (Cons e es)
  obtain a b k where e: "e = (a, b, k)" by (cases e)
  define m' where "m' = (case edge_region n2r a b of None \<Rightarrow> m | Some r \<Rightarrow> m((a, b, k) \<mapsto> r))"
  have step: "edges_loop n2r (e # es) m = edges_loop n2r es m'"
    by (simp add: e m'_def)
  show ?case
  proof (cases "(a, b, k) = (u, v, key)")
    case True
    with Cons.prems(2) have m': "m' (u, v, key) = edge_region n2r u v"
      by (auto simp: m'_def split: option.splits)
    show ?thesis
    proof (cases "(u, v, key) \<in> set es")
      case True
      with Cons.IH[of m'] m' step show ?thesis by simp
    next
      case False
      with edges_loop_other[of u v key es n2r m'] m' step show ?thesis by simp
    qed
  next
    case False
    with Cons.prems e have mem: "(u, v, key) \<in> set es" by auto
    from False Cons.prems(2) have "m' (u, v, key) = None \<or> m' (u, v, key) = edge_region n2r u v"
      by (auto simp: m'_def split: option.splits)
    with Cons.IH[OF mem, of m'] step show ?thesis by simp
  qed
qed

lemma edges_loop_member:
  "(u, v, key) \<in> set es \<Longrightarrow> edges_loop n2r es Map.empty (u, v, key) = edge_region n2r u v"
  by (rule edges_loop_invariant) simp_all

lemma warp_edge_to_region:
  assumes "map_regions_to_road_network q G_nodes G_edges region_data radius =
             Inr (node_to_region, edge_to_region, region_networks)"
    and "(u, v, key) \<in> set G_edges"
  shows "edge_to_region (u, v, key) = edge_region node_to_region u v"
  using assms
  by (auto simp: map_regions_to_road_network_def Let_def edges_loop_member
      split: sum.splits if_splits)

text \<open>
  Claim C9 fails in tload.py, where the region of an edge is the region of its first end
  point alone. With node 1 in the low-risk region and node 2 in the high-risk region, the
  edge from 1 to 2 is tagged \<open>low\<close>; the loop body of warp.py gives the same edge the
  high-risk region.
\<close>

theorem tload_edge_takes_source_region:
  "edge_tags.risk_level
     (tag_edge (map_of (nodeid_to_region_idx two_regions)) (regions two_regions)
        (region_risks two_regions) (1, 2)) = ''low'' \<and>
   region_name
     (tag_edge (map_of (nodeid_to_region_idx two_regions)) (regions two_regions)
        (region_risks two_regions) (1, 2)) = ''matunga'' \<and>
   map_option flood_risk_level
     (edge_region
        [1 \<mapsto> \<lparr> areas = ''Matunga'', flood_risk_level = ''low'', latitude = 19.0276,
                 longitude = 72.8512 \<rparr>,
         2 \<mapsto> \<lparr> areas = ''Colaba'', flood_risk_level = ''high'', latitude = 18.9151,
                 longitude = 72.8141 \<rparr>]
        1 2) = Some ''high''"
  by (simp add: tag_edge_def edge_region_def risk_priority_get_def two_regions_def)

section \<open>The prefix of the safe destinations\<close>

lemma get_two_safest_routes_below:
  assumes "extractOne scorer (lower user_area) (unique (map simple_row.Areas flood_df)) = Some (m, s)"
    and "s < 60"
  shows "get_two_safest_routes scorer user_area G flood_df = Inr (None, None, None)"
  using assms by (simp add: get_two_safest_routes_def)

lemma get_two_safest_routes_resolved:
  assumes ex: "extractOne scorer (lower user_area) (unique (map simple_row.Areas flood_df)) = Some (m, s)"
    and s: "60 \<le> s"
  shows "\<exists>start rest.
           filter (\<lambda>r. simple_row.Areas r = m) flood_df = start # rest \<and>
           get_two_safest_routes scorer user_area G flood_df =
             Inr (Some m, Some s,
                  Some (take 2 (sort_key (\<lambda>x. (risk x, graph_route.distance_km x))
                    (List.map_filter
                       (try_route G (nearest_nodes G (simple_row.Longitude start) (simple_row.Latitude start)))
                       (take 5 (map (\<lambda>row. nearest_nodes G (simple_row.Longitude row) (simple_row.Latitude row))
                                  (safe_areas_of flood_df)))))))"
proof -
  from extractOne_mem[OF ex] have "m \<in> set (map simple_row.Areas flood_df)"
    by (simp add: set_unique)
  then obtain start rest where f: "filter (\<lambda>r. simple_row.Areas r = m) flood_df = start # rest"
    using filter_eq_key_Cons by fast
  have "get_two_safest_routes scorer user_area G flood_df =
             Inr (Some m, Some s,
                  Some (take 2 (sort_key (\<lambda>x. (risk x, graph_route.distance_km x))
                    (List.map_filter
                       (try_route G (nearest_nodes G (simple_row.Longitude start) (simple_row.Latitude start)))
                       (take 5 (map (\<lambda>row. nearest_nodes G (simple_row.Longitude row) (simple_row.Latitude row))
                                  (safe_areas_of flood_df)))))))"
    using ex s f
    by (auto simp: get_two_safest_routes_def Let_def safe_areas_of_def List.map_filter_simps)
  with f show ?thesis by blast
qed

lemma get_two_safest_routes_cases:
  assumes "get_two_safest_routes scorer user_area G flood_df = Inr (Some m, sc, rts)"
  shows "\<exists>s start rest. sc = Some s \<and> 60 \<le> s \<and>
            filter (\<lambda>r. simple_row.Areas r = m) flood_df = start # rest \<and>
            rts = Some (take 2 (sort_key (\<lambda>x. (risk x, graph_route.distance_km x))
                    (List.map_filter
                       (try_route G (nearest_nodes G (simple_row.Longitude start) (simple_row.Latitude start)))
                       (take 5 (map (\<lambda>row. nearest_nodes G (simple_row.Longitude row) (simple_row.Latitude row))
                                  (safe_areas_of flood_df))))))"
proof (cases "extractOne scorer (lower user_area) (unique (map simple_row.Areas flood_df))")
  case None
  with assms show ?thesis by (simp add: get_two_safest_routes_def)
next
  case (Some p)
  obtain m' s where p: "p = (m', s)" by (cases p)
  show ?thesis
  proof (cases "s < 60")
    case True
    with Some p assms get_two_safest_routes_below[of scorer user_area flood_df m' s G]
    show ?thesis by simp
  next
    case False
    then have "60 \<le> s" by simp
    from get_two_safest_routes_resolved[OF Some[unfolded p] this, of G] assms Some p \<open>60 \<le> s\<close>
    show ?thesis by auto
  qed
qed

lemma calculate_simple_routes_sources:
  assumes "calculate_simple_routes scorer user_area flood_df = Inr (Some m, sc, rts)"
  shows "\<exists>start \<in> set flood_df. simple_row.Areas start = m \<and>
           (\<forall>r \<in> set rts. \<exists>z \<in> set (take 3 (safe_areas_of flood_df)).
                r = simple_route_to (simple_row.Latitude start) (simple_row.Longitude start) z)"
proof -
  from calculate_simple_routes_cases[OF assms]
  obtain start rest where
    f: "filter (\<lambda>r. simple_row.Areas r = m) flood_df = start # rest" and
    t: "rts = take 2 (sort_key simple_route.distance_km
                    (map (simple_route_to (simple_row.Latitude start) (simple_row.Longitude start))
                       (take 3 (safe_areas_of flood_df))))"
    by auto
  from f have "start \<in> set (filter (\<lambda>r. simple_row.Areas r = m) flood_df)" by simp
  then have st: "start \<in> set flood_df" "simple_row.Areas start = m" by auto
  have "\<exists>z \<in> set (take 3 (safe_areas_of flood_df)).
                r = simple_route_to (simple_row.Latitude start) (simple_row.Longitude start) z"
    if "r \<in> set rts" for r
  proof -
    from that t have "r \<in> set (map (simple_route_to (simple_row.Latitude start) (simple_row.Longitude start))
                       (take 3 (safe_areas_of flood_df)))"
      by (auto dest!: in_set_takeD)
    then show ?thesis by auto
  qed
  with st show ?thesis by blast
qed

lemma get_two_safest_routes_sources:
  assumes "get_two_safest_routes scorer user_area G flood_df = Inr (Some m, sc, Some rts)"
  shows "\<exists>start \<in> set flood_df. simple_row.Areas start = m \<and>
           (\<forall>r \<in> set rts.
              \<exists>n \<in> set (take 5 (map (\<lambda>row. nearest_nodes G (simple_row.Longitude row) (simple_row.Latitude row))
                                  (safe_areas_of flood_df))).
                try_route G (nearest_nodes G (simple_row.Longitude start) (simple_row.Latitude start)) n = Some r)"
proof -
  from get_two_safest_routes_cases[OF assms]
  obtain start rest where
    f: "filter (\<lambda>r. simple_row.Areas r = m) flood_df = start # rest" and
    t: "rts = take 2 (sort_key (\<lambda>x. (risk x, graph_route.distance_km x))
                    (List.map_filter
                       (try_route G (nearest_nodes G (simple_row.Longitude start) (simple_row.Latitude start)))
                       (take 5 (map (\<lambda>row. nearest_nodes G (simple_row.Longitude row) (simple_row.Latitude row))
                                  (safe_areas_of flood_df)))))"
    by auto
  from f have "start \<in> set (filter (\<lambda>r. simple_row.Areas r = m) flood_df)" by simp
  then have st: "start \<in> set flood_df" "simple_row.Areas start = m" by auto
  have "\<exists>n \<in> set (take 5 (map (\<lambda>row. nearest_nodes G (simple_row.Longitude row) (simple_row.Latitude row))
                                  (safe_areas_of flood_df))).
                try_route G (nearest_nodes G (simple_row.Longitude start) (simple_row.Latitude start)) n = Some r"
    if "r \<in> set rts" for r
  proof -
    from that t have "r \<in> set (List.map_filter
                       (try_route G (nearest_nodes G (simple_row.Longitude start) (simple_row.Latitude start)))
                       (take 5 (map (\<lambda>row. nearest_nodes G (simple_row.Longitude row) (simple_row.Latitude row))
                                  (safe_areas_of flood_df))))"
      by (auto dest!: in_set_takeD)
    then show ?thesis by (auto simp: List.map_filter_def)
  qed
  with st show ?thesis by blast
qed

text \<open>
  Claim C10. In evacuation\_app\_simple.py every returned route is the route to one of the
  first three safe areas of the table, and in evacuation\_app.py every returned route is the
  route to one of the first five safe nodes: a safe destination after that prefix is never
  looked at. The example that follows the theorem has a table and a road graph in which the
  safe destination left out is strictly nearer to the start than both destinations returned.
\<close>

theorem safe_prefix_only:
  "(calculate_simple_routes scorer user_area flood_df = Inr (Some m, sc, rts) \<longrightarrow>
      (\<exists>start \<in> set flood_df. simple_row.Areas start = m \<and>
           (\<forall>r \<in> set rts. \<exists>z \<in> set (take 3 (safe_areas_of flood_df)).
                r = simple_route_to (simple_row.Latitude start) (simple_row.Longitude start) z))) \<and>
   (get_two_safest_routes scorer user_area G flood_df = Inr (Some m', sc', Some graph_rts) \<longrightarrow>
      (\<exists>start \<in> set flood_df. simple_row.Areas start = m' \<and>
           (\<forall>r \<in> set graph_rts.
              \<exists>n \<in> set (take 5 (map (\<lambda>row. nearest_nodes G (simple_row.Longitude row) (simple_row.Latitude row))
                                  (safe_areas_of flood_df))).
                try_route G (nearest_nodes G (simple_row.Longitude start) (simple_row.Latitude start)) n = Some r)))"
  using calculate_simple_routes_sources get_two_safest_routes_sources by (intro conjI impI)

lemma graph_rows_match:
  "extractOne exact_scorer (lower ''Colaba'') (unique (map simple_row.Areas graph_rows)) =
     Some (''colaba'', 100)"
  by code_simp

lemma graph_rows_safe_nodes:
  "map (\<lambda>row. nearest_nodes star_network (simple_row.Longitude row) (simple_row.Latitude row))
     (safe_areas_of graph_rows) = [1, 2, 3, 4, 5, 6]"
proof -
  have "lower ''High'' = ''high''" "lower ''Low'' = ''low''" by code_simp+
  then show ?thesis
    by (simp add: safe_areas_of_def graph_rows_def star_network_def)
qed

lemma star_try_route:
  "try_route star_network 0 1 = Some (star_route 1 13400)"
  "try_route star_network 0 2 = Some (star_route 2 9800)"
  "try_route star_network 0 3 = Some (star_route 3 14700)"
  "try_route star_network 0 4 = Some (star_route 4 9100)"
  "try_route star_network 0 5 = Some (star_route 5 7500)"
  "try_route star_network 0 6 = Some (star_route 6 2600)"
  by (simp_all add: try_route_def star_network_def star_edge_def star_route_def edge_zero_def Let_def)

lemma graph_rows_start:
  "filter (\<lambda>r. simple_row.Areas r = ''colaba'') graph_rows =
     [\<lparr> Ward_Code = ''A'', Areas = ''colaba'', Latitude = 18.9151,
        Longitude = 72.8141, Flood_risk_level = ''High'' \<rparr>]"
  by (simp add: graph_rows_def)

lemma graph_rows_result:
  "get_two_safest_routes exact_scorer ''Colaba'' star_network graph_rows =
     Inr (Some ''colaba'', Some 100, Some [star_route 5 7500, star_route 4 9100])"
proof -
  from get_two_safest_routes_resolved[OF graph_rows_match, of star_network]
  obtain start rest where
    f: "filter (\<lambda>r. simple_row.Areas r = ''colaba'') graph_rows = start # rest" and
    c: "get_two_safest_routes exact_scorer ''Colaba'' star_network graph_rows =
             Inr (Some ''colaba'', Some 100,
                  Some (take 2 (sort_key (\<lambda>x. (risk x, graph_route.distance_km x))
                    (List.map_filter
                       (try_route star_network
                          (nearest_nodes star_network (simple_row.Longitude start) (simple_row.Latitude start)))
                       (take 5 (map (\<lambda>row. nearest_nodes star_network (simple_row.Longitude row) (simple_row.Latitude row))
                                  (safe_areas_of graph_rows)))))))"
    by force
  from f graph_rows_start have "start = \<lparr> Ward_Code = ''A'', Areas = ''colaba'',
      Latitude = 18.9151, Longitude = 72.8141, Flood_risk_level = ''High'' \<rparr>"
    by (simp only: list.inject)
  then have "simple_row.Latitude start = 18.9151" by simp
  then have o: "nearest_nodes star_network (simple_row.Longitude start) (simple_row.Latitude start) = 0"
    by (simp add: star_network_def)
  have m: "List.map_filter (try_route star_network 0) (take 5 [1, 2, 3, 4, 5, 6]) =
             [star_route 1 13400, star_route 2 9800, star_route 3 14700, star_route 4 9100,
              star_route 5 7500]"
    by (simp add: List.map_filter_simps star_try_route)
  have s: "take 2 (sort_key (\<lambda>x. (risk x, graph_route.distance_km x))
             [star_route 1 13400, star_route 2 9800, star_route 3 14700, star_route 4 9100,
              star_route 5 7500]) = [star_route 5 7500, star_route 4 9100]"
    by (simp add: star_route_def)
  show ?thesis unfolding c o graph_rows_safe_nodes m s ..
qed

lemma simple_rows_only_start:
  "start \<in> set simple_rows \<Longrightarrow> simple_row.Areas start = ''colaba'' \<Longrightarrow> start = simple_colaba"
  by (auto simp: simple_rows_def simple_colaba_def simple_matunga_def
        simple_cotton_green_def simple_byculla_def simple_churchgate_def)

lemma graph_rows_only_start:
  "start \<in> set graph_rows \<Longrightarrow> simple_row.Areas start = ''colaba'' \<Longrightarrow>
     nearest_nodes star_network (simple_row.Longitude start) (simple_row.Latitude start) = 0"
  by (auto simp: graph_rows_def star_network_def)

theorem safe_prefix_only_witness:
  "calculate_simple_routes exact_scorer ''Colaba'' simple_rows =
     Inr (Some ''colaba'', Some 100,
          [simple_route_to 18.9151 72.8141 simple_byculla,
           simple_route_to 18.9151 72.8141 simple_cotton_green]) \<and>
   safe_areas_of simple_rows =
     [simple_matunga, simple_cotton_green, simple_byculla, simple_churchgate] \<and>
   set [simple_route_to 18.9151 72.8141 simple_byculla,
        simple_route_to 18.9151 72.8141 simple_cotton_green]
     \<subseteq> simple_route_to 18.9151 72.8141 ` set (take 3 (safe_areas_of simple_rows)) \<and>
   simple_route.distance_km (simple_route_to 18.9151 72.8141 simple_churchgate)
     < simple_route.distance_km (simple_route_to 18.9151 72.8141 simple_byculla) \<and>
   get_two_safest_routes exact_scorer ''Colaba'' star_network graph_rows =
     Inr (Some ''colaba'', Some 100, Some [star_route 5 7500, star_route 4 9100]) \<and>
   map (\<lambda>row. nearest_nodes star_network (simple_row.Longitude row) (simple_row.Latitude row))
     (safe_areas_of graph_rows) = [1, 2, 3, 4, 5, 6] \<and>
   list_all (\<lambda>r. \<exists>n \<in> set (take 5 [1, 2, 3, 4, 5, 6]). try_route star_network 0 n = Some r)
     [star_route 5 7500, star_route 4 9100] \<and>
   try_route star_network 0 6 = Some (star_route 6 2600) \<and>
   graph_route.distance_km (star_route 6 2600) < graph_route.distance_km (star_route 5 7500)"
proof -
  let ?rts = "[simple_route_to 18.9151 72.8141 simple_byculla,
           simple_route_to 18.9151 72.8141 simple_cotton_green]"
  from safe_prefix_only[of exact_scorer "''Colaba''" simple_rows "''colaba''" "Some 100" ?rts]
    simple_rows_result
  obtain start where st: "start \<in> set simple_rows" "simple_row.Areas start = ''colaba''"
    and all: "\<forall>r \<in> set ?rts. \<exists>z \<in> set (take 3 (safe_areas_of simple_rows)).
                r = simple_route_to (simple_row.Latitude start) (simple_row.Longitude start) z"
    by blast
  from simple_rows_only_start[OF st] have "simple_row.Latitude start = 18.9151"
    "simple_row.Longitude start = 72.8141"
    by (simp_all add: simple_colaba_def)
  with all have sub: "set ?rts \<subseteq> simple_route_to 18.9151 72.8141 ` set (take 3 (safe_areas_of simple_rows))"
    by (simp only: subset_iff image_iff) blast
  let ?grts = "[star_route 5 7500, star_route 4 9100]"
  from safe_prefix_only[of exact_scorer "''Colaba''" graph_rows _ _ _
      star_network "''colaba''" "Some 100" ?grts]
    graph_rows_result
  obtain gstart where gst: "gstart \<in> set graph_rows" "simple_row.Areas gstart = ''colaba''"
    and gall: "\<forall>r \<in> set ?grts.
      \<exists>n \<in> set (take 5 (map (\<lambda>row. nearest_nodes star_network (simple_row.Longitude row)
                                      (simple_row.Latitude row)) (safe_areas_of graph_rows))).
        try_route star_network
          (nearest_nodes star_network (simple_row.Longitude gstart) (simple_row.Latitude gstart)) n
          = Some r"
    by blast
  from gall have gl: "list_all (\<lambda>r. \<exists>n \<in> set (take 5 [1, 2, 3, 4, 5, 6]).
      try_route star_network 0 n = Some r) ?grts"
    unfolding graph_rows_only_start[OF gst] graph_rows_safe_nodes list_all_iff .
  have d: "graph_route.distance_km (star_route 6 2600) < graph_route.distance_km (star_route 5 7500)"
    by (simp add: star_route_def)
  from simple_rows_result simple_rows_safe sub simple_distances(3) graph_rows_result
    graph_rows_safe_nodes gl star_try_route(6) d
  show ?thesis by (intro conjI)
qed


end
